theory Spec2Isabelle
  imports Complex_Main "HOL-Library.Sublist" "HOL-Library.Multiset" "HOL-Library.Monad_Syntax"
begin

section \<open>Python values, strings and exceptions\<close>

text \<open>
  The providers and the server exchange loosely typed dictionaries. A value is one of
  Python's JSON-like values; a dictionary is an association list in insertion order (every
  dictionary the program builds is a literal with distinct keys). A float is a finite
  float, named by its value; text is a list of Latin-1 characters.
\<close>

datatype pyval =
    PNone
  | PBool bool
  | PInt int
  | PFloat rat
  | PStr string
  | PList "pyval list"
  | PDict "(string \<times> pyval) list"

type_synonym pydict = "(string \<times> pyval) list"

datatype error = ValueError | TypeError | KeyError | AttributeError

text \<open>\<open>d.get(k, default)\<close> on a dictionary.\<close>

definition dict_get :: "(string \<times> 'v) list \<Rightarrow> string \<Rightarrow> 'v \<Rightarrow> 'v" where
  "dict_get d k dflt = (case map_of d k of Some v \<Rightarrow> v | None \<Rightarrow> dflt)"

text \<open>\<open>x or default\<close> for an optional string: \<open>None\<close> and the empty string are falsy.\<close>

definition py_or :: "string option \<Rightarrow> string \<Rightarrow> string" where
  "py_or x dflt = (case x of None \<Rightarrow> dflt | Some s \<Rightarrow> if s = [] then dflt else s)"

text \<open>Truthiness of a value, as \<open>if v:\<close> tests it.\<close>

fun truthy :: "pyval \<Rightarrow> bool" where
  "truthy PNone = False"
| "truthy (PBool b) = b"
| "truthy (PInt i) = (i \<noteq> 0)"
| "truthy (PFloat r) = (r \<noteq> 0)"
| "truthy (PStr s) = (s \<noteq> [])"
| "truthy (PList xs) = (xs \<noteq> [])"
| "truthy (PDict d) = (d \<noteq> [])"

subsection \<open>Decimal text of integers\<close>

definition digit_char :: "nat \<Rightarrow> char" where
  "digit_char n = char_of (48 + n)"

fun str_nat :: "nat \<Rightarrow> string" where
  "str_nat n = (if n < 10 then [digit_char n] else str_nat (n div 10) @ [digit_char (n mod 10)])"

declare str_nat.simps [simp del]

text \<open>\<open>str(i)\<close> for an int.\<close>

definition str_int :: "int \<Rightarrow> string" where
  "str_int i = (if i < 0 then CHR ''-'' # str_nat (nat (- i)) else str_nat (nat i))"

text \<open>\<open>'%0wd' % n\<close>: left-padded with zeros to width \<open>w\<close>.\<close>

definition zero_pad :: "nat \<Rightarrow> nat \<Rightarrow> string" where
  "zero_pad w n = replicate (w - length (str_nat n)) CHR ''0'' @ str_nat n"

subsection \<open>The string operations the program uses\<close>

text \<open>\<open>sep.join(parts)\<close>.\<close>

fun join :: "string \<Rightarrow> string list \<Rightarrow> string" where
  "join sep [] = []"
| "join sep [x] = x"
| "join sep (x # y # ys) = x @ sep @ join sep (y # ys)"

text \<open>\<open>k in s\<close> for strings: \<open>k\<close> occurs in \<open>s\<close> as a contiguous piece.\<close>

fun str_in :: "string \<Rightarrow> string \<Rightarrow> bool" where
  "str_in k [] = (k = [])"
| "str_in k (c # cs) = (prefix k (c # cs) \<or> str_in k cs)"

text \<open>
  \<open>s.lower()\<close> on Latin-1 text: A to Z and the accented capitals (C0 to DE, the
  multiplication sign D7 apart) move up by 32, every other character stays.
\<close>

definition lower_char :: "char \<Rightarrow> char" where
  "lower_char c =
     (let n = (of_char c :: nat)
      in if (65 \<le> n \<and> n \<le> 90) \<or> (192 \<le> n \<and> n \<le> 222 \<and> n \<noteq> 215)
         then char_of (n + 32) else c)"

definition lower :: "string \<Rightarrow> string" where
  "lower s = map lower_char s"

text \<open>
  \<open>s.replace(old, new)\<close> for a non-empty \<open>old\<close> (the two patterns of the program are
  literals): every occurrence, left to right, without overlap.
\<close>

function replace :: "string \<Rightarrow> string \<Rightarrow> string \<Rightarrow> string" where
  "replace old new [] = []"
| "replace old new (c # cs) =
     (if old \<noteq> [] \<and> prefix old (c # cs)
      then new @ replace old new (drop (length old - 1) cs)
      else c # replace old new cs)"
  by pat_completeness auto
termination
  by (relation "measure (\<lambda>(old, new, s). length s)") auto

text \<open>
  \<open>float(s)\<close> on the text of an integer, with an optional sign: the only texts that
  reach the call are built from an int. Other text raises ValueError here.
\<close>

definition is_digit :: "char \<Rightarrow> bool" where
  "is_digit c = (48 \<le> (of_char c :: nat) \<and> (of_char c :: nat) \<le> 57)"

definition digits_val :: "string \<Rightarrow> nat" where
  "digits_val s = foldl (\<lambda>a c. 10 * a + (of_char c - 48)) 0 s"

definition py_float :: "string \<Rightarrow> error + rat" where
  "py_float s =
     (case s of
        [] \<Rightarrow> Inl ValueError
      | c # cs \<Rightarrow>
          if c = CHR ''-'' \<and> cs \<noteq> [] \<and> list_all is_digit cs then Inr (- of_nat (digits_val cs))
          else if c = CHR ''+'' \<and> cs \<noteq> [] \<and> list_all is_digit cs then Inr (of_nat (digits_val cs))
          else if list_all is_digit (c # cs) then Inr (of_nat (digits_val (c # cs)))
          else Inl ValueError)"

text \<open>
  \<open>str(v)\<close>, as an f-string renders a value. The text of a float and of a container is
  Python's own business: it is the parameter \<open>R\<close>.
\<close>

fun py_str :: "(pyval \<Rightarrow> string) \<Rightarrow> pyval \<Rightarrow> string" where
  "py_str R PNone = ''None''"
| "py_str R (PBool b) = (if b then ''True'' else ''False'')"
| "py_str R (PInt i) = str_int i"
| "py_str R (PStr s) = s"
| "py_str R v = R v"

text \<open>Running a fallible step over a list stops at the first exception.\<close>

fun map_err :: "('a \<Rightarrow> error + 'b) \<Rightarrow> 'a list \<Rightarrow> error + 'b list" where
  "map_err f [] = Inr []"
| "map_err f (x # xs) =
     (case f x of
        Inl e \<Rightarrow> Inl e
      | Inr y \<Rightarrow> (case map_err f xs of Inl e \<Rightarrow> Inl e | Inr ys \<Rightarrow> Inr (y # ys)))"

section \<open>Naive datetimes\<close>

record datetime =
  year :: nat
  month :: nat
  day :: nat
  hour :: nat
  minute :: nat
  second :: nat
  microsecond :: nat

definition is_leap :: "nat \<Rightarrow> bool" where
  "is_leap y = (y mod 4 = 0 \<and> (y mod 100 \<noteq> 0 \<or> y mod 400 = 0))"

definition days_in_month :: "nat \<Rightarrow> nat \<Rightarrow> nat" where
  "days_in_month y m =
     (if m = 2 then (if is_leap y then 29 else 28)
      else if m = 4 \<or> m = 6 \<or> m = 9 \<or> m = 11 then 30 else 31)"

definition days_before_year :: "nat \<Rightarrow> int" where
  "days_before_year y =
     (let p = int y - 1 in p * 365 + p div 4 - p div 100 + p div 400)"

definition days_before_month :: "nat \<Rightarrow> nat \<Rightarrow> int" where
  "days_before_month y m = int (sum_list (map (days_in_month y) [1 ..< m]))"

definition ymd2ord :: "nat \<Rightarrow> nat \<Rightarrow> nat \<Rightarrow> int" where
  "ymd2ord y m d = days_before_year y + days_before_month y m + int d"

text \<open>Microseconds since the start of the proleptic calendar.\<close>

definition to_microseconds :: "datetime \<Rightarrow> int" where
  "to_microseconds t =
     ((ymd2ord (year t) (month t) (day t) * 86400
       + int (hour t) * 3600 + int (minute t) * 60 + int (second t)) * 1000000)
     + int (microsecond t)"

text \<open>
  \<open>(a - b).total_seconds()\<close>. The float the program compares with 300 is the rounding of
  this quotient of a whole number of microseconds; the rounding is monotone and 300 is a
  float, so the comparison has the value it has here.
\<close>

definition total_seconds :: "datetime \<Rightarrow> datetime \<Rightarrow> rat" where
  "total_seconds a b = of_int (to_microseconds a - to_microseconds b) / 1000000"

text \<open>\<open>t.replace(day=d)\<close> raises ValueError when the month has no such day.\<close>

definition replace_day :: "datetime \<Rightarrow> nat \<Rightarrow> error + datetime" where
  "replace_day t d =
     (if 1 \<le> d \<and> d \<le> days_in_month (year t) (month t) then Inr (t\<lparr>day := d\<rparr>)
      else Inl ValueError)"

text \<open>\<open>t.strftime("%Y-%m-%d")\<close> (for a year of four digits) and \<open>t.isoformat()\<close>.\<close>

definition strftime_ymd :: "datetime \<Rightarrow> string" where
  "strftime_ymd t =
     zero_pad 4 (year t) @ ''-'' @ zero_pad 2 (month t) @ ''-'' @ zero_pad 2 (day t)"

definition isoformat :: "datetime \<Rightarrow> string" where
  "isoformat t =
     strftime_ymd t @ ''T'' @ zero_pad 2 (hour t) @ '':'' @ zero_pad 2 (minute t)
       @ '':'' @ zero_pad 2 (second t)
       @ (if microsecond t = 0 then [] else ''.'' @ zero_pad 6 (microsecond t))"

section \<open>The context providers\<close>

subsection \<open>BaseProvider\<close>

record base_provider =
  api_key :: "string option"
  last_fetch_time :: "datetime option"
  provider_cache_duration :: int
  cached_data :: "pydict option"

record response =
  data :: pydict
  timestamp :: string
  provider :: string

text \<open>\<open>BaseProvider.__init__\<close>, with the \<open>cached_data = None\<close> of every subclass.\<close>

definition new_provider :: "string option \<Rightarrow> base_provider" where
  "new_provider k =
     \<lparr>api_key = k, last_fetch_time = None, provider_cache_duration = 300, cached_data = None\<rparr>"

definition provider_is_cache_valid :: "datetime \<Rightarrow> 'a base_provider_scheme \<Rightarrow> bool" where
  "provider_is_cache_valid now p =
     (case last_fetch_time p of
        None \<Rightarrow> False
      | Some t \<Rightarrow> total_seconds now t < of_int (provider_cache_duration p))"

text \<open>
  The guard that opens every \<open>fetch_data\<close>:
  \<open>if self.is_cache_valid() and self.cached_data: return self.format_response(self.cached_data)\<close>.
  It yields the dictionary served from the provider's own cache, if any. Neither the city
  nor the country takes part in it.
\<close>

definition cache_lookup :: "datetime \<Rightarrow> 'a base_provider_scheme \<Rightarrow> pydict option" where
  "cache_lookup now p =
     (if provider_is_cache_valid now p
      then (case cached_data p of None \<Rightarrow> None | Some d \<Rightarrow> if d \<noteq> [] then Some d else None)
      else None)"

definition format_response :: "string \<Rightarrow> datetime \<Rightarrow> pydict \<Rightarrow> response" where
  "format_response cls now d = \<lparr>data = d, timestamp = isoformat now, provider = cls\<rparr>"

subsection \<open>WeatherProvider\<close>

text \<open>
  What the HTTP request of one call comes to: an exception (connection error, timeout,
  error status, a body that is not JSON), or the decoded body.
\<close>

datatype http_result = HttpFailed | HttpJson pyval

text \<open>\<open>v.get(k, default)\<close> on any value: only a dictionary has \<open>get\<close> (None stands for the
  AttributeError, which the provider's \<open>except Exception\<close> catches).\<close>

fun val_get :: "pyval \<Rightarrow> string \<Rightarrow> pyval \<Rightarrow> pyval option" where
  "val_get (PDict d) k dflt = Some (dict_get d k dflt)"
| "val_get v k dflt = None"

text \<open>\<open>v[0]\<close>: the first item of a list or of a string; an exception on anything else
  (a JSON object has no key \<open>0\<close>).\<close>

fun first_item :: "pyval \<Rightarrow> pyval option" where
  "first_item (PList (x # xs)) = Some x"
| "first_item (PStr (c # cs)) = Some (PStr [c])"
| "first_item v = None"

definition weather_format :: "string \<Rightarrow> string \<Rightarrow> pyval \<Rightarrow> pydict option" where
  "weather_format city country j = do {
     name \<leftarrow> val_get j ''name'' (PStr city);
     sys \<leftarrow> val_get j ''sys'' (PDict []);
     ctry \<leftarrow> val_get sys ''country'' (PStr country);
     main \<leftarrow> val_get j ''main'' (PDict []);
     temp \<leftarrow> val_get main ''temp'' PNone;
     feels \<leftarrow> val_get main ''feels_like'' PNone;
     hum \<leftarrow> val_get main ''humidity'' PNone;
     pres \<leftarrow> val_get main ''pressure'' PNone;
     ws \<leftarrow> val_get j ''weather'' (PList [PDict []]);
     w0 \<leftarrow> first_item ws;
     descr \<leftarrow> val_get w0 ''description'' (PStr []);
     cond \<leftarrow> val_get w0 ''main'' (PStr []);
     wind \<leftarrow> val_get j ''wind'' (PDict []);
     speed \<leftarrow> val_get wind ''speed'' PNone;
     deg \<leftarrow> val_get wind ''deg'' PNone;
     vis \<leftarrow> val_get j ''visibility'' PNone;
     clouds \<leftarrow> val_get j ''clouds'' (PDict []);
     cl \<leftarrow> val_get clouds ''all'' PNone;
     Some [(''city'', name), (''country'', ctry), (''temperature'', temp),
           (''feels_like'', feels), (''humidity'', hum), (''pressure'', pres),
           (''description'', descr), (''main_condition'', cond), (''wind_speed'', speed),
           (''wind_direction'', deg), (''visibility'', vis), (''cloudiness'', cl)]
   }"

definition weather_get_mock_data :: "datetime \<Rightarrow> string \<Rightarrow> string \<Rightarrow> response" where
  "weather_get_mock_data now city country =
     format_response ''WeatherProvider'' now
       [(''city'', PStr city), (''country'', PStr country),
        (''temperature'', PFloat (31 / 2)), (''feels_like'', PFloat (71 / 5)),
        (''humidity'', PInt 65), (''pressure'', PInt 1013),
        (''description'', PStr ''partly cloudy''), (''main_condition'', PStr ''Clouds''),
        (''wind_speed'', PFloat (7 / 2)), (''wind_direction'', PInt 180),
        (''visibility'', PInt 10000), (''cloudiness'', PInt 40),
        (''note'', PStr ''Mock data - API key not configured'')]"

text \<open>
  \<open>WeatherProvider.fetch_data\<close>. \<open>now\<close> is the clock of this call and \<open>http\<close> what its
  request comes to. Every exception of the request and of the decoding lands in the
  \<open>except Exception\<close> branch, which answers with the mock data and stores nothing.
\<close>

definition weather_fetch_data ::
  "datetime \<Rightarrow> http_result \<Rightarrow> string \<Rightarrow> string \<Rightarrow> base_provider \<Rightarrow> response \<times> base_provider"
where
  "weather_fetch_data now http city country p =
     (case cache_lookup now p of
        Some d \<Rightarrow> (format_response ''WeatherProvider'' now d, p)
      | None \<Rightarrow>
          if py_or (api_key p) [] = [] then (weather_get_mock_data now city country, p)
          else
            (case http of
               HttpFailed \<Rightarrow> (weather_get_mock_data now city country, p)
             | HttpJson j \<Rightarrow>
                 (case weather_format city country j of
                    None \<Rightarrow> (weather_get_mock_data now city country, p)
                  | Some fd \<Rightarrow>
                      (format_response ''WeatherProvider'' now fd,
                       p\<lparr>cached_data := Some fd, last_fetch_time := Some now\<rparr>))))"

subsection \<open>TrafficProvider\<close>

definition get_traffic_recommendation :: "string \<Rightarrow> string" where
  "get_traffic_recommendation condition =
     dict_get
       [(''low'', ''Traffic is light. Good time to travel.''),
        (''moderate'', ''Moderate traffic expected. Allow some extra time.''),
        (''heavy'', ''Heavy traffic detected. Consider alternative routes or public transport.''),
        (''severe'', ''Severe traffic congestion. Strongly recommend public transport or delay travel.'')]
       condition ''Traffic conditions unknown.''"

definition route_names :: "string list" where
  "route_names =
     [''City Center - Airport'', ''City Center - North District'',
      ''City Center - South District'', ''City Center - East District'',
      ''City Center - West District'']"

text \<open>
  \<open>_get_mock_traffic_data\<close>. The random draws are the parameter \<open>rnd\<close>: for route \<open>i\<close>,
  the drawn condition and the drawn delay; the condition of route 0 is the
  \<open>current_condition\<close>.
\<close>

definition get_mock_traffic_data :: "(nat \<Rightarrow> string \<times> int) \<Rightarrow> string \<Rightarrow> string \<Rightarrow> pydict" where
  "get_mock_traffic_data rnd city country =
     (let current_condition = fst (rnd 0);
          routes = map (\<lambda>(i, name). (name, fst (rnd i), snd (rnd i))) (enumerate 0 route_names)
      in [(''city'', PStr city), (''country'', PStr country),
          (''overall_traffic_level'', PStr current_condition),
          (''average_delay_minutes'',
             PInt (sum_list (map (\<lambda>(name, status, delay). delay) routes) div int (length routes))),
          (''routes'',
             PList (map (\<lambda>(name, status, delay).
                      PDict [(''name'', PStr name), (''status'', PStr status),
                             (''delay_minutes'', PInt delay)]) routes)),
          (''recommendation'', PStr (get_traffic_recommendation current_condition)),
          (''peak_hours'',
             PDict [(''morning'', PStr ''07:00 - 09:00''), (''evening'', PStr ''17:00 - 19:00'')]),
          (''note'', PStr ''Mock traffic data - integrate with real API for production use'')])"

definition traffic_fetch_data ::
  "datetime \<Rightarrow> (nat \<Rightarrow> string \<times> int) \<Rightarrow> string \<Rightarrow> string \<Rightarrow> base_provider
     \<Rightarrow> response \<times> base_provider"
where
  "traffic_fetch_data now rnd city country p =
     (case cache_lookup now p of
        Some d \<Rightarrow> (format_response ''TrafficProvider'' now d, p)
      | None \<Rightarrow>
          (let formatted_data = get_mock_traffic_data rnd city country
           in (format_response ''TrafficProvider'' now formatted_data,
               p\<lparr>cached_data := Some formatted_data, last_fetch_time := Some now\<rparr>)))"

subsection \<open>TemperatureProvider\<close>

record temperature_state = base_provider +
  tp_weather_provider :: base_provider

definition new_temperature_provider :: "string option \<Rightarrow> temperature_state" where
  "new_temperature_provider k =
     \<lparr>api_key = k, last_fetch_time = None, provider_cache_duration = 300, cached_data = None,
      tp_weather_provider = new_provider k\<rparr>"

text \<open>The number a value compares as; None where the comparison raises TypeError.\<close>

fun num_of :: "pyval \<Rightarrow> rat option" where
  "num_of (PInt i) = Some (of_int i)"
| "num_of (PFloat r) = Some r"
| "num_of (PBool b) = Some (if b then 1 else 0)"
| "num_of v = None"

definition get_temperature_recommendation :: "rat \<Rightarrow> string" where
  "get_temperature_recommendation temp =
     (if temp < 0 then ''Very cold! Dress warmly with multiple layers.''
      else if temp < 10 then ''Cold weather. Wear a warm jacket.''
      else if temp < 18 then ''Cool weather. A light jacket would be comfortable.''
      else if temp < 25 then ''Pleasant temperature. Light clothing is recommended.''
      else if temp < 30 then ''Warm weather. Light and breathable clothing.''
      else ''Hot weather! Stay hydrated and wear light, loose clothing.'')"

text \<open>
  \<open>_calculate_wind_chill\<close>. Below a wind speed of 5 the temperature comes back as it is;
  otherwise the float \<open>round(temp - wind_speed * 0.5, 1)\<close>, whose floating-point
  arithmetic is the parameter \<open>chill\<close>.
\<close>

definition calculate_wind_chill :: "(rat \<Rightarrow> rat \<Rightarrow> rat) \<Rightarrow> pyval \<Rightarrow> pyval \<Rightarrow> error + pyval" where
  "calculate_wind_chill chill temp wind_speed =
     (case num_of wind_speed of
        None \<Rightarrow> Inl TypeError
      | Some w \<Rightarrow>
          if w < 5 then Inr temp
          else (case num_of temp of
                  None \<Rightarrow> Inl TypeError
                | Some t \<Rightarrow> Inr (PFloat (chill t w))))"

text \<open>
  \<open>TemperatureProvider.fetch_data\<close>. The provider asks a WeatherProvider of its own; the
  comparisons of \<open>temperature_range\<close> raise TypeError on a temperature that is no number
  (the weather API answered without one), and nothing catches it.
\<close>

definition temperature_fetch_data ::
  "datetime \<Rightarrow> http_result \<Rightarrow> (rat \<Rightarrow> rat \<Rightarrow> rat) \<Rightarrow> string \<Rightarrow> string \<Rightarrow> temperature_state
     \<Rightarrow> (error + response) \<times> temperature_state"
where
  "temperature_fetch_data now http chill city country p =
     (case cache_lookup now p of
        Some d \<Rightarrow> (Inr (format_response ''TemperatureProvider'' now d), p)
      | None \<Rightarrow>
          (let (weather_data, wp) = weather_fetch_data now http city country (tp_weather_provider p);
               p1 = p\<lparr>tp_weather_provider := wp\<rparr>;
               weather_info = data weather_data;
               temp = dict_get weather_info ''temperature'' (PInt 0);
               feels_like = dict_get weather_info ''feels_like'' temp
           in case num_of temp of
                None \<Rightarrow> (Inl TypeError, p1)
              | Some t \<Rightarrow>
                  (case calculate_wind_chill chill temp (dict_get weather_info ''wind_speed'' (PInt 0)) of
                     Inl e \<Rightarrow> (Inl e, p1)
                   | Inr wind_chill \<Rightarrow>
                       (let formatted_data =
                          [(''city'', dict_get weather_info ''city'' (PStr city)),
                           (''country'', dict_get weather_info ''country'' (PStr country)),
                           (''current_temperature'', temp),
                           (''feels_like_temperature'', feels_like),
                           (''temperature_unit'', PStr ''celsius''),
                           (''temperature_range'',
                              PDict [(''comfortable'', PBool (18 \<le> t \<and> t \<le> 25)),
                                     (''too_cold'', PBool (t < 10)),
                                     (''too_hot'', PBool (t > 30))]),
                           (''recommendation'', PStr (get_temperature_recommendation t)),
                           (''humidity'', dict_get weather_info ''humidity'' PNone),
                           (''wind_chill_factor'', wind_chill)]
                        in (Inr (format_response ''TemperatureProvider'' now formatted_data),
                            p1\<lparr>cached_data := Some formatted_data, last_fetch_time := Some now\<rparr>)))))"

subsection \<open>ShopOffersProvider\<close>

text \<open>The random draws of one category's offer.\<close>

record offer_draw =
  discount :: int
  store_number :: int
  day_offset :: nat
  distance_km :: rat

definition categories :: "string list" where
  "categories = [''Groceries'', ''Electronics'', ''Fashion'', ''Restaurants'', ''Entertainment'']"

text \<open>
  \<open>datetime.now().replace(day=datetime.now().day + k).strftime("%Y-%m-%d")\<close>: the day
  of the month is moved on by \<open>k\<close> with the month kept, which raises ValueError when the
  month has no such day.
\<close>

definition valid_until :: "datetime \<Rightarrow> nat \<Rightarrow> error + string" where
  "valid_until now k =
     (case replace_day now (day now + k) of
        Inl e \<Rightarrow> Inl e
      | Inr t \<Rightarrow> Inr (strftime_ymd t))"

text \<open>One round of the loop over the categories.\<close>

definition category_offer :: "datetime \<Rightarrow> string \<Rightarrow> offer_draw \<Rightarrow> string \<Rightarrow> error + pyval" where
  "category_offer now city d category =
     (case valid_until now (day_offset d) of
        Inl e \<Rightarrow> Inl e
      | Inr until \<Rightarrow>
          Inr (PDict
            [(''category'', PStr category),
             (''store'', PStr (category @ '' Store '' @ str_int (store_number d))),
             (''offer'', PStr (str_int (discount d) @ ''% OFF'')),
             (''description'',
                PStr (''Special '' @ str_int (discount d) @ ''% discount on selected items'')),
             (''valid_until'', PStr until),
             (''location'', PStr (city @ '' City Center'')),
             (''distance_km'', PFloat (distance_km d))]))"

definition featured_offers :: "datetime \<Rightarrow> string \<Rightarrow> error + pyval list" where
  "featured_offers now city =
     (case valid_until now 3 of
        Inl e \<Rightarrow> Inl e
      | Inr until3 \<Rightarrow>
          (case valid_until now 2 of
             Inl e \<Rightarrow> Inl e
           | Inr until2 \<Rightarrow>
               Inr [PDict
                      [(''category'', PStr ''Restaurants''),
                       (''store'', PStr ''City Bistro''),
                       (''offer'', PStr ''Buy 1 Get 1 Free''),
                       (''description'',
                          PStr ''Lunch special - Buy one main course, get one free''),
                       (''valid_until'', PStr until3),
                       (''location'', PStr (city @ '' Downtown'')),
                       (''distance_km'', PFloat (6 / 5))],
                    PDict
                      [(''category'', PStr ''Groceries''),
                       (''store'', PStr ''SuperMart''),
                       (''offer'', PStr ''20% OFF''),
                       (''description'',
                          PStr ''Weekly grocery special - 20% off on all fresh produce''),
                       (''valid_until'', PStr until2),
                       (''location'', PStr (city @ '' Shopping District'')),
                       (''distance_km'', PFloat (5 / 2))]]))"

text \<open>
  The sort key
  \<open>lambda x: float(x["offer"].replace("% OFF", "").replace("Buy 1 Get 1 Free", "50"))\<close>.
\<close>

fun offer_sort_key :: "pyval \<Rightarrow> error + rat" where
  "offer_sort_key (PDict d) =
     (case map_of d ''offer'' of
        None \<Rightarrow> Inl KeyError
      | Some (PStr s) \<Rightarrow> py_float (replace ''Buy 1 Get 1 Free'' ''50'' (replace ''% OFF'' [] s))
      | Some v \<Rightarrow> Inl AttributeError)"
| "offer_sort_key v = Inl TypeError"

text \<open>
  \<open>sorted(xs, key=key, reverse=True)\<close>: the keys are computed first; the list is
  reversed, sorted stably by ascending key and reversed again, so that equal keys keep
  their order.
\<close>

definition sorted_reverse :: "('a \<Rightarrow> error + rat) \<Rightarrow> 'a list \<Rightarrow> error + 'a list" where
  "sorted_reverse key xs =
     (case map_err key xs of
        Inl e \<Rightarrow> Inl e
      | Inr ks \<Rightarrow> Inr (map snd (rev (sort_key fst (rev (zip ks xs))))))"

text \<open>\<open>_get_mock_shop_offers\<close>; \<open>rnd\<close> gives the draws of each category.\<close>

definition get_mock_shop_offers ::
  "datetime \<Rightarrow> (string \<Rightarrow> offer_draw) \<Rightarrow> string \<Rightarrow> string \<Rightarrow> error + pydict"
where
  "get_mock_shop_offers now rnd city country =
     (case map_err (\<lambda>category. category_offer now city (rnd category) category) categories of
        Inl e \<Rightarrow> Inl e
      | Inr offers \<Rightarrow>
          (case featured_offers now city of
             Inl e \<Rightarrow> Inl e
           | Inr featured \<Rightarrow>
               (case sorted_reverse offer_sort_key (featured @ offers) of
                  Inl e \<Rightarrow> Inl e
                | Inr ranked \<Rightarrow>
                    Inr [(''city'', PStr city), (''country'', PStr country),
                         (''total_offers'', PInt (int (length offers) + int (length featured))),
                         (''featured_offers'', PList featured),
                         (''category_offers'', PList offers),
                         (''all_offers'', PList (featured @ offers)),
                         (''best_deals'', PList (take 3 ranked)),
                         (''note'',
                            PStr ''Mock shop offers data - integrate with real APIs for production use'')])))"

definition shop_fetch_data ::
  "datetime \<Rightarrow> (string \<Rightarrow> offer_draw) \<Rightarrow> string \<Rightarrow> string \<Rightarrow> base_provider
     \<Rightarrow> (error + response) \<times> base_provider"
where
  "shop_fetch_data now rnd city country p =
     (case cache_lookup now p of
        Some d \<Rightarrow> (Inr (format_response ''ShopOffersProvider'' now d), p)
      | None \<Rightarrow>
          (case get_mock_shop_offers now rnd city country of
             Inl e \<Rightarrow> (Inl e, p)
           | Inr formatted_data \<Rightarrow>
               (Inr (format_response ''ShopOffersProvider'' now formatted_data),
                p\<lparr>cached_data := Some formatted_data, last_fetch_time := Some now\<rparr>)))"

section \<open>SmartCityMCPServer\<close>

record server =
  weather_provider :: base_provider
  traffic_provider :: base_provider
  temperature_provider :: temperature_state
  shop_offers_provider :: base_provider
  data_cache :: "(string \<times> pydict) list"
  cache_timestamp :: "datetime option"
  cache_duration :: int
  current_city :: string
  current_country :: string

text \<open>\<open>__init__\<close>; \<open>k\<close> is the value of the environment variable \<open>OPENWEATHER_API_KEY\<close>.\<close>

definition new_server :: "string option \<Rightarrow> server" where
  "new_server k =
     \<lparr>weather_provider = new_provider k,
      traffic_provider = new_provider None,
      temperature_provider = new_temperature_provider k,
      shop_offers_provider = new_provider None,
      data_cache = [],
      cache_timestamp = None,
      cache_duration = 300,
      current_city = ''London'',
      current_country = ''GB''\<rparr>"

text \<open>
  What one refresh takes from outside the program: for each provider the clock of its
  call and its request or random draws, the floating-point arithmetic of the wind chill,
  and the clock at which the server stores the result.
\<close>

record fetch_env =
  weather_now :: datetime
  weather_http :: http_result
  traffic_now :: datetime
  traffic_rnd :: "nat \<Rightarrow> string \<times> int"
  temperature_now :: datetime
  temperature_http :: http_result
  float_chill :: "rat \<Rightarrow> rat \<Rightarrow> rat"
  shop_now :: datetime
  shop_rnd :: "string \<Rightarrow> offer_draw"
  store_now :: datetime

text \<open>
  \<open>fetch_all_data\<close>. The four coroutines of \<open>asyncio.gather\<close> work on separate
  provider objects and share nothing; they are run here one after the other, each to its
  end, in the order in which \<open>gather\<close> starts them. When several raise, the exception of
  the first in this order leaves the function (in the program: the one raised first in
  time). An exception leaves behind what was assigned before it: the current city and
  country, and what the providers stored.
\<close>

definition fetch_all_data ::
  "fetch_env \<Rightarrow> string option \<Rightarrow> string option \<Rightarrow> server
     \<Rightarrow> (error + (string \<times> pydict) list) \<times> server"
where
  "fetch_all_data env city_arg country_arg s =
     (let city = py_or city_arg (current_city s);
          country = py_or country_arg (current_country s);
          (weather_data, wp) =
             weather_fetch_data (weather_now env) (weather_http env) city country
               (weather_provider s);
          (traffic_data, tp) =
             traffic_fetch_data (traffic_now env) (traffic_rnd env) city country
               (traffic_provider s);
          (temperature_result, mp) =
             temperature_fetch_data (temperature_now env) (temperature_http env) (float_chill env)
               city country (temperature_provider s);
          (shop_offers_result, sp) =
             shop_fetch_data (shop_now env) (shop_rnd env) city country (shop_offers_provider s);
          s1 = s\<lparr>current_city := city, current_country := country,
                 weather_provider := wp, traffic_provider := tp,
                 temperature_provider := mp, shop_offers_provider := sp\<rparr>
      in case temperature_result of
           Inl e \<Rightarrow> (Inl e, s1)
         | Inr temperature_data \<Rightarrow>
             (case shop_offers_result of
                Inl e \<Rightarrow> (Inl e, s1)
              | Inr shop_offers_data \<Rightarrow>
                  (let cache =
                     [(''weather'', data weather_data),
                      (''traffic'', data traffic_data),
                      (''temperature'', data temperature_data),
                      (''shop_offers'', data shop_offers_data),
                      (''metadata'',
                         [(''city'', PStr city), (''country'', PStr country),
                          (''fetched_at'', PStr (isoformat (store_now env)))])]
                   in (Inr cache,
                       s1\<lparr>data_cache := cache, cache_timestamp := Some (store_now env)\<rparr>))))"

definition is_cache_valid :: "datetime \<Rightarrow> server \<Rightarrow> bool" where
  "is_cache_valid now s =
     (case cache_timestamp s of
        None \<Rightarrow> False
      | Some t \<Rightarrow> total_seconds now t < of_int (cache_duration s) \<and> length (data_cache s) > 0)"

text \<open>
  The condition of the \<open>if\<close> in \<open>get_city_data\<close>, on the city after its default:
  \<open>force_refresh or not self.is_cache_valid() or
  self.data_cache.get("metadata", {}).get("city") != city\<close>.
\<close>

definition needs_fetch :: "datetime \<Rightarrow> string \<Rightarrow> bool \<Rightarrow> server \<Rightarrow> bool" where
  "needs_fetch now city force_refresh s =
     (force_refresh \<or> \<not> is_cache_valid now s
      \<or> dict_get (dict_get (data_cache s) ''metadata'' []) ''city'' PNone \<noteq> PStr city)"

definition get_city_data ::
  "fetch_env \<Rightarrow> datetime \<Rightarrow> string option \<Rightarrow> string option \<Rightarrow> bool \<Rightarrow> server
     \<Rightarrow> (error + (string \<times> pydict) list) \<times> server"
where
  "get_city_data env now city_arg country_arg force_refresh s =
     (let city = py_or city_arg (current_city s);
          country = py_or country_arg (current_country s)
      in if needs_fetch now city force_refresh s
         then (case fetch_all_data env (Some city) (Some country) s of
                 (Inl e, s') \<Rightarrow> (Inl e, s')
               | (Inr fetched, s') \<Rightarrow> (Inr (data_cache s'), s'))
         else (Inr (data_cache s), s))"

subsection \<open>Answering a query\<close>

definition weather_keywords :: "string list" where
  "weather_keywords =
     [''weather'', ''rain'', ''sunny'', ''cloudy'', ''wind'', ''humidity'', ''pressure'']"

definition temp_keywords :: "string list" where
  "temp_keywords = [''temperature'', ''temp'', ''hot'', ''cold'', ''warm'', ''cool'']"

definition traffic_keywords :: "string list" where
  "traffic_keywords = [''traffic'', ''road'', ''route'', ''congestion'', ''delay'', ''commute'']"

definition shop_keywords :: "string list" where
  "shop_keywords =
     [''shop'', ''store'', ''offer'', ''deal'', ''discount'', ''sale'', ''buy'', ''shopping'']"

text \<open>\<open>any(keyword in query_lower for keyword in keywords)\<close>.\<close>

definition keyword_hit :: "string list \<Rightarrow> string \<Rightarrow> bool" where
  "keyword_hit keywords query_lower = list_ex (\<lambda>keyword. str_in keyword query_lower) keywords"

text \<open>\<open>d[k] = v\<close>: an existing key keeps its place, a new one goes to the end.\<close>

fun dict_set :: "(string \<times> 'v) list \<Rightarrow> string \<Rightarrow> 'v \<Rightarrow> (string \<times> 'v) list" where
  "dict_set [] k v = [(k, v)]"
| "dict_set (p # ps) k v = (if fst p = k then (k, v) # ps else p # dict_set ps k v)"

text \<open>An optional string argument as a value.\<close>

definition opt_val :: "string option \<Rightarrow> pyval" where
  "opt_val x = (case x of None \<Rightarrow> PNone | Some s \<Rightarrow> PStr s)"

definition degrees_c :: string where
  "degrees_c = [char_of (176 :: nat), CHR ''C'']"

text \<open>
  The four blocks of \<open>answer_query\<close>, each on the pair of \<open>relevant_data\<close> and
  \<open>answer_parts\<close> built so far.
\<close>

type_synonym parts = "(string \<times> pydict) list \<times> string list"

definition weather_part ::
  "(pyval \<Rightarrow> string) \<Rightarrow> (string \<times> pydict) list \<Rightarrow> pyval \<Rightarrow> parts \<Rightarrow> parts"
where
  "weather_part R city_data city p =
     (let weather = dict_get city_data ''weather'' []
      in (dict_set (fst p) ''weather'' weather,
          snd p @
            [''Weather in '' @ py_str R (dict_get weather ''city'' city) @ '': ''
               @ py_str R (dict_get weather ''description'' (PStr ''N/A'')) @ '', ''
               @ ''Temperature: '' @ py_str R (dict_get weather ''temperature'' (PStr ''N/A''))
               @ degrees_c @ '', ''
               @ ''Humidity: '' @ py_str R (dict_get weather ''humidity'' (PStr ''N/A'')) @ ''%'']))"

definition temperature_part ::
  "(pyval \<Rightarrow> string) \<Rightarrow> (string \<times> pydict) list \<Rightarrow> parts \<Rightarrow> parts"
where
  "temperature_part R city_data p =
     (let temp = dict_get city_data ''temperature'' []
      in (dict_set (fst p) ''temperature'' temp,
          snd p @
            [''Current temperature: ''
               @ py_str R (dict_get temp ''current_temperature'' (PStr ''N/A''))
               @ degrees_c @ ''. ''
               @ py_str R (dict_get temp ''recommendation'' (PStr []))]))"

definition traffic_part ::
  "(pyval \<Rightarrow> string) \<Rightarrow> (string \<times> pydict) list \<Rightarrow> parts \<Rightarrow> parts"
where
  "traffic_part R city_data p =
     (let traffic = dict_get city_data ''traffic'' []
      in (dict_set (fst p) ''traffic'' traffic,
          snd p @
            [''Traffic level: ''
               @ py_str R (dict_get traffic ''overall_traffic_level'' (PStr ''N/A'')) @ ''. ''
               @ py_str R (dict_get traffic ''recommendation'' (PStr []))]))"

text \<open>\<open>f"{deal['store']} - {deal['offer']}"\<close>.\<close>

fun deal_string :: "(pyval \<Rightarrow> string) \<Rightarrow> pyval \<Rightarrow> error + string" where
  "deal_string R (PDict d) =
     (case map_of d ''store'' of
        None \<Rightarrow> Inl KeyError
      | Some store \<Rightarrow>
          (case map_of d ''offer'' of
             None \<Rightarrow> Inl KeyError
           | Some offer \<Rightarrow> Inr (py_str R store @ '' - '' @ py_str R offer)))"
| "deal_string R v = Inl TypeError"

text \<open>
  The shopping block. \<open>best_deals[:3]\<close> of a list is its first three items; a truthy
  \<open>best_deals\<close> that is no list ends in an exception (on a string, in \<open>deal['store']\<close>).
\<close>

definition shop_part ::
  "(pyval \<Rightarrow> string) \<Rightarrow> (string \<times> pydict) list \<Rightarrow> parts \<Rightarrow> error + parts"
where
  "shop_part R city_data p =
     (let offers = dict_get city_data ''shop_offers'' [];
          relevant_data = dict_set (fst p) ''shop_offers'' offers;
          best_deals = dict_get offers ''best_deals'' (PList [])
      in if truthy best_deals
         then (case best_deals of
                 PList deals \<Rightarrow>
                   (case map_err (deal_string R) (take 3 deals) of
                      Inl e \<Rightarrow> Inl e
                    | Inr deal_strings \<Rightarrow>
                        Inr (relevant_data,
                             snd p @ [''Best deals available: '' @ join '', '' deal_strings]))
               | v \<Rightarrow> Inl TypeError)
         else Inr (relevant_data,
                   snd p @
                     [''Found '' @ py_str R (dict_get offers ''total_offers'' (PInt 0))
                        @ '' offers available in the city.'']))"

definition general_part ::
  "(pyval \<Rightarrow> string) \<Rightarrow> (string \<times> pydict) list \<Rightarrow> pyval \<Rightarrow> parts"
where
  "general_part R city_data city =
     (let weather = dict_get city_data ''weather'' [];
          traffic = dict_get city_data ''traffic'' [];
          temp = dict_get city_data ''temperature'' [];
          offers = dict_get city_data ''shop_offers'' []
      in (city_data,
          [''City conditions for ''
             @ py_str R (dict_get (dict_get city_data ''metadata'' []) ''city'' city) @ '': ''
             @ ''Weather: '' @ py_str R (dict_get weather ''description'' (PStr ''N/A'')) @ '', ''
             @ ''Temperature: ''
             @ py_str R (dict_get temp ''current_temperature'' (PStr ''N/A''))
             @ degrees_c @ '', ''
             @ ''Traffic: ''
             @ py_str R (dict_get traffic ''overall_traffic_level'' (PStr ''N/A'')) @ '', ''
             @ ''Available offers: '' @ py_str R (dict_get offers ''total_offers'' (PInt 0))]))"

text \<open>
  The body of \<open>answer_query\<close> after the data is there (from \<open>query_lower = query.lower()\<close>
  to the answer string): the answer and \<open>relevant_data\<close> for the data, the query and the
  \<open>city\<close> argument.
\<close>

definition compose_answer ::
  "(pyval \<Rightarrow> string) \<Rightarrow> (string \<times> pydict) list \<Rightarrow> string \<Rightarrow> pyval
     \<Rightarrow> error + string \<times> (string \<times> pydict) list"
where
  "compose_answer R city_data query city =
     (let query_lower = lower query;
          p0 = ([], []);
          p1 = (if keyword_hit weather_keywords query_lower
                then weather_part R city_data city p0 else p0);
          p2 = (if keyword_hit temp_keywords query_lower
                then temperature_part R city_data p1 else p1);
          p3 = (if keyword_hit traffic_keywords query_lower
                then traffic_part R city_data p2 else p2)
      in case (if keyword_hit shop_keywords query_lower
               then shop_part R city_data p3 else Inr p3) of
           Inl e \<Rightarrow> Inl e
         | Inr p4 \<Rightarrow>
             (let p5 = (if snd p4 = [] then general_part R city_data city else p4)
              in Inr (if snd p5 \<noteq> [] then join '' '' (snd p5)
                      else ''I couldn't find specific information for your query.'',
                      fst p5)))"

record answer_result =
  res_query :: string
  res_answer :: string
  res_relevant_data :: "(string \<times> pydict) list"
  res_timestamp :: string
  res_city :: pyval
  res_country :: pyval

text \<open>\<open>answer_query\<close>; \<open>now\<close> is the clock of the cache check, \<open>stamp\<close> that of the answer.\<close>

definition answer_query ::
  "fetch_env \<Rightarrow> datetime \<Rightarrow> datetime \<Rightarrow> (pyval \<Rightarrow> string) \<Rightarrow> string \<Rightarrow> string option
     \<Rightarrow> string option \<Rightarrow> server \<Rightarrow> (error + answer_result) \<times> server"
where
  "answer_query env now stamp R query city_arg country_arg s =
     (case get_city_data env now city_arg country_arg False s of
        (Inl e, s') \<Rightarrow> (Inl e, s')
      | (Inr city_data, s') \<Rightarrow>
          (case compose_answer R city_data query (opt_val city_arg) of
             Inl e \<Rightarrow> (Inl e, s')
           | Inr (answer, relevant_data) \<Rightarrow>
               (Inr \<lparr>res_query = query, res_answer = answer,
                     res_relevant_data = relevant_data,
                     res_timestamp = isoformat stamp,
                     res_city =
                       dict_get (dict_get city_data ''metadata'' []) ''city'' (opt_val city_arg),
                     res_country =
                       dict_get (dict_get city_data ''metadata'' []) ''country''
                         (opt_val country_arg)\<rparr>,
                s')))"

text \<open>The four provider calls of a refresh for a city and a country, by name.\<close>

abbreviation weather_call :: "fetch_env \<Rightarrow> string \<Rightarrow> string \<Rightarrow> server \<Rightarrow> response \<times> base_provider" where
  "weather_call env c k s \<equiv>
     weather_fetch_data (weather_now env) (weather_http env) c k (weather_provider s)"

abbreviation traffic_call :: "fetch_env \<Rightarrow> string \<Rightarrow> string \<Rightarrow> server \<Rightarrow> response \<times> base_provider" where
  "traffic_call env c k s \<equiv>
     traffic_fetch_data (traffic_now env) (traffic_rnd env) c k (traffic_provider s)"

abbreviation temperature_call ::
  "fetch_env \<Rightarrow> string \<Rightarrow> string \<Rightarrow> server \<Rightarrow> (error + response) \<times> temperature_state"
where
  "temperature_call env c k s \<equiv>
     temperature_fetch_data (temperature_now env) (temperature_http env) (float_chill env) c k
       (temperature_provider s)"

abbreviation shop_call ::
  "fetch_env \<Rightarrow> string \<Rightarrow> string \<Rightarrow> server \<Rightarrow> (error + response) \<times> base_provider"
where
  "shop_call env c k s \<equiv>
     shop_fetch_data (shop_now env) (shop_rnd env) c k (shop_offers_provider s)"

section \<open>Reachable server states\<close>

text \<open>
  The states a server object goes through: it is created, and then any of its three
  asynchronous operations runs on it, with any arguments and any outside world.
  (\<open>get_context_summary\<close> only reads.)
\<close>

inductive reachable :: "server \<Rightarrow> bool" where
  reach_new: "reachable (new_server k)"
| reach_fetch: "reachable s \<Longrightarrow> reachable (snd (fetch_all_data env city country s))"
| reach_get: "reachable s \<Longrightarrow> reachable (snd (get_city_data env now city country force s))"
| reach_answer:
    "reachable s \<Longrightarrow> reachable (snd (answer_query env now stamp R query city country s))"

text \<open>What every reachable state satisfies.\<close>

definition server_inv :: "server \<Rightarrow> bool" where
  "server_inv s = (cache_duration s = 300 \<and> (cache_timestamp s = None \<longleftrightarrow> data_cache s = []))"

text \<open>
  A snapshot names its city: the weather fragment and the metadata have the key \<open>city\<close>,
  as the schema of the specification has it.
\<close>

definition names_city :: "(string \<times> pydict) list \<Rightarrow> bool" where
  "names_city city_data =
     (map_of (dict_get city_data ''weather'' []) ''city'' \<noteq> None
      \<and> map_of (dict_get city_data ''metadata'' []) ''city'' \<noteq> None)"

text \<open>
  What the weather provider has stored names a city, and so does a cached snapshot: this
  too holds in every reachable state.
\<close>

definition weather_cache_inv :: "base_provider \<Rightarrow> bool" where
  "weather_cache_inv p =
     (case cached_data p of None \<Rightarrow> True | Some d \<Rightarrow> map_of d ''city'' \<noteq> None)"

definition naming_inv :: "server \<Rightarrow> bool" where
  "naming_inv s =
     (weather_cache_inv (weather_provider s)
      \<and> (data_cache s = [] \<or> names_city (data_cache s)))"

section \<open>The specification's notions\<close>

text \<open>
  The freshness predicate in the specification's words: a snapshot is there, its age is
  below the 300 seconds, and it describes the requested city and the requested country.
\<close>

definition cached_meta :: "server \<Rightarrow> string \<Rightarrow> pyval" where
  "cached_meta s k = dict_get (dict_get (data_cache s) ''metadata'' []) k PNone"

definition snapshot_age_below :: "datetime \<Rightarrow> server \<Rightarrow> rat \<Rightarrow> bool" where
  "snapshot_age_below now s ttl =
     (case cache_timestamp s of None \<Rightarrow> False | Some t \<Rightarrow> total_seconds now t < ttl)"

definition spec_valid :: "datetime \<Rightarrow> string \<Rightarrow> string \<Rightarrow> server \<Rightarrow> bool" where
  "spec_valid now city country s =
     (data_cache s \<noteq> [] \<and> snapshot_age_below now s 300
      \<and> cached_meta s ''city'' = PStr city \<and> cached_meta s ''country'' = PStr country)"

text \<open>The same without the country: what the condition of \<open>get_city_data\<close> looks at.\<close>

definition city_valid :: "datetime \<Rightarrow> string \<Rightarrow> server \<Rightarrow> bool" where
  "city_valid now city s =
     (data_cache s \<noteq> [] \<and> snapshot_age_below now s 300 \<and> cached_meta s ''city'' = PStr city)"

text \<open>
  The classifier in the specification's words: the categories in their fixed order, each
  with its keyword list; a category matches when one of its keywords is a piece of the
  lower-cased query; no match gives the single category \<open>General\<close>.
\<close>

datatype category = Weather | Temperature | Traffic | Shopping | General

fun spec_keywords :: "category \<Rightarrow> string list" where
  "spec_keywords Weather =
     [''weather'', ''rain'', ''sunny'', ''cloudy'', ''wind'', ''humidity'', ''pressure'']"
| "spec_keywords Temperature = [''temperature'', ''temp'', ''hot'', ''cold'', ''warm'', ''cool'']"
| "spec_keywords Traffic =
     [''traffic'', ''road'', ''route'', ''congestion'', ''delay'', ''commute'']"
| "spec_keywords Shopping =
     [''shop'', ''store'', ''offer'', ''deal'', ''discount'', ''sale'', ''buy'', ''shopping'']"
| "spec_keywords General = []"

definition matches :: "string \<Rightarrow> category \<Rightarrow> bool" where
  "matches query c = list_ex (\<lambda>k. sublist k (lower query)) (spec_keywords c)"

definition classify :: "string \<Rightarrow> category list" where
  "classify query =
     (let hits = filter (matches query) [Weather, Temperature, Traffic, Shopping]
      in if hits = [] then [General] else hits)"

text \<open>The key under which \<open>relevant_data\<close> holds the fragment of a category.\<close>

fun fragment_key :: "category \<Rightarrow> string" where
  "fragment_key Weather = ''weather''"
| "fragment_key Temperature = ''temperature''"
| "fragment_key Traffic = ''traffic''"
| "fragment_key Shopping = ''shop_offers''"
| "fragment_key General = ''general''"

text \<open>The worth of an offer in the ranking: its sort key.\<close>

definition discount_magnitude :: "pyval \<Rightarrow> rat" where
  "discount_magnitude v = (case offer_sort_key v of Inl e \<Rightarrow> 0 | Inr r \<Rightarrow> r)"

text \<open>A deal with the texts of its store and its offer.\<close>

definition deal_of :: "pyval \<Rightarrow> string \<times> string \<Rightarrow> bool" where
  "deal_of v so =
     (case v of
        PDict d \<Rightarrow> map_of d ''store'' = Some (PStr (fst so)) \<and> map_of d ''offer'' = Some (PStr (snd so))
      | _ \<Rightarrow> False)"

text \<open>
  The deals of the shopping sentence in the specification's words: up to three deals, each
  as "store - offer", separated by a comma and a space.
\<close>

definition deal_text :: "string \<times> string \<Rightarrow> string" where
  "deal_text so = fst so @ '' - '' @ snd so"

definition three_deals_text :: "(string \<times> string) list \<Rightarrow> string" where
  "three_deals_text pairs =
     (case pairs of
        [a] \<Rightarrow> deal_text a
      | [a, b] \<Rightarrow> deal_text a @ '', '' @ deal_text b
      | [a, b, c] \<Rightarrow> deal_text a @ '', '' @ deal_text b @ '', '' @ deal_text c
      | _ \<Rightarrow> [])"

text \<open>
  Two characters are the same letter up to case, the second being a small ASCII letter:
  they are equal, or the first is the capital of the second.
\<close>

definition caseless_eq :: "char \<Rightarrow> char \<Rightarrow> bool" where
  "caseless_eq a b =
     (a = b \<or> (97 \<le> (of_char b :: nat) \<and> (of_char b :: nat) \<le> 122
               \<and> (of_char a :: nat) + 32 = of_char b))"

text \<open>A text of small ASCII letters, as every keyword is.\<close>

definition small_letters :: "string \<Rightarrow> bool" where
  "small_letters k = list_all (\<lambda>b. 97 \<le> (of_char b :: nat) \<and> (of_char b :: nat) \<le> 122) k"

section \<open>Example runs\<close>

definition at_time :: "nat \<Rightarrow> nat \<Rightarrow> nat \<Rightarrow> nat \<Rightarrow> datetime" where
  "at_time d h m sec =
     \<lparr>year = 2026, month = 1, day = d, hour = h, minute = m, second = sec, microsecond = 0\<rparr>"

definition example_draw :: "string \<Rightarrow> offer_draw" where
  "example_draw c = \<lparr>discount = 30, store_number = 2, day_offset = 1, distance_km = 3 / 2\<rparr>"

text \<open>An outside world without API key and network, all clocks at \<open>t\<close>.\<close>

definition example_env :: "datetime \<Rightarrow> fetch_env" where
  "example_env t =
     \<lparr>weather_now = t, weather_http = HttpFailed,
      traffic_now = t, traffic_rnd = (\<lambda>i. (''low'', 5)),
      temperature_now = t, temperature_http = HttpFailed,
      float_chill = (\<lambda>temp w. temp - w / 2),
      shop_now = t, shop_rnd = example_draw,
      store_now = t\<rparr>"

text \<open>A new server after a refresh for London, GB on 10 January 2026 at noon.\<close>

definition london_server :: server where
  "london_server =
     snd (fetch_all_data (example_env (at_time 10 12 0 0)) (Some ''London'') (Some ''GB'')
            (new_server None))"

text \<open>Data with four deals, and data whose list of best deals is empty.\<close>

definition example_deal :: "string \<Rightarrow> string \<Rightarrow> pyval" where
  "example_deal store offer = PDict [(''store'', PStr store), (''offer'', PStr offer)]"

definition four_deals :: "(string \<times> pydict) list" where
  "four_deals =
     [(''shop_offers'',
        [(''total_offers'', PInt 4),
         (''best_deals'',
            PList [example_deal ''City Bistro'' ''Buy 1 Get 1 Free'',
                   example_deal ''Fashion Store 1'' ''45% OFF'',
                   example_deal ''SuperMart'' ''20% OFF'',
                   example_deal ''Groceries Store 3'' ''10% OFF''])])]"

definition no_deals :: "(string \<times> pydict) list" where
  "no_deals = [(''shop_offers'', [(''total_offers'', PInt 0), (''best_deals'', PList [])])]"

definition example_render :: "pyval \<Rightarrow> string" where
  "example_render v = (case v of PFloat r \<Rightarrow> (if r = 31 / 2 then ''15.5'' else ''?'') | _ \<Rightarrow> ''?'')"

section \<open>Decimal text and the sort key of an offer\<close>

lemma of_char_digit_char: "k < 10 \<Longrightarrow> of_char (digit_char k) = 48 + k"
  by (simp add: digit_char_def)

lemma is_digit_digit_char: "k < 10 \<Longrightarrow> is_digit (digit_char k)"
  by (simp add: is_digit_def of_char_digit_char)

lemma str_nat_digits: "list_all is_digit (str_nat n) \<and> str_nat n \<noteq> []"
proof (induction n rule: str_nat.induct)
  case (1 n)
  show ?case
  proof (cases "n < 10")
    case True
    then show ?thesis by (simp add: str_nat.simps[of n] is_digit_digit_char)
  next
    case False
    with 1 show ?thesis by (simp add: str_nat.simps[of n] is_digit_digit_char)
  qed
qed

lemma digits_val_snoc: "digits_val (xs @ [c]) = 10 * digits_val xs + (of_char c - 48)"
  by (simp add: digits_val_def)

lemma digits_val_str_nat: "digits_val (str_nat n) = n"
proof (induction n rule: str_nat.induct)
  case (1 n)
  show ?case
  proof (cases "n < 10")
    case True
    then show ?thesis by (simp add: str_nat.simps[of n] digits_val_def of_char_digit_char)
  next
    case False
    with 1 show ?thesis
      by (simp add: str_nat.simps[of n] digits_val_snoc of_char_digit_char)
  qed
qed

lemma is_digit_not_sign: "is_digit c \<Longrightarrow> c \<noteq> CHR ''-'' \<and> c \<noteq> CHR ''+'' \<and> c \<noteq> CHR ''%'' \<and> c \<noteq> CHR ''B''"
  by (auto simp: is_digit_def)

lemma py_float_str_int: "py_float (str_int i) = Inr (of_int i)"
proof (cases "i < 0")
  case True
  then show ?thesis
    using str_nat_digits[of "nat (- i)"]
    by (simp add: py_float_def str_int_def digits_val_str_nat)
next
  case False
  obtain c cs where s: "str_nat (nat i) = c # cs"
    using str_nat_digits[of "nat i"] by (cases "str_nat (nat i)") auto
  have d: "list_all is_digit (c # cs)" using str_nat_digits[of "nat i"] s by simp
  then have "is_digit c" by simp
  then have n: "c \<noteq> CHR ''-''" "c \<noteq> CHR ''+''" using is_digit_not_sign by blast+
  have v: "digits_val (c # cs) = nat i" using digits_val_str_nat[of "nat i"] s by simp
  show ?thesis using False s d n v by (simp add: py_float_def str_int_def)
qed

lemma replace_skip:
  "a \<notin> set s \<Longrightarrow> replace (a # old) new (s @ t) = s @ replace (a # old) new t"
  by (induction s) auto

lemma str_int_chars: "c \<in> set (str_int i) \<Longrightarrow> is_digit c \<or> c = CHR ''-''"
  using str_nat_digits[of "nat (- i)"] str_nat_digits[of "nat i"]
  by (auto simp: str_int_def list_all_iff split: if_splits)

lemma str_int_no_percent: "CHR ''%'' \<notin> set (str_int i)" "CHR ''B'' \<notin> set (str_int i)"
  using str_int_chars[of _ i] is_digit_not_sign by fastforce+

lemma offer_text_key:
  "py_float (replace ''Buy 1 Get 1 Free'' ''50'' (replace ''% OFF'' [] (str_int i @ ''% OFF'')))
     = Inr (of_int i)"
proof -
  have a: "replace ''% OFF'' [] (str_int i @ ''% OFF'') = str_int i"
    using replace_skip[where a = "CHR ''%''" and s = "str_int i" and old = "'' OFF''"
        and new = "[]" and t = "''% OFF''"] str_int_no_percent(1)[of i] by simp
  have b: "replace ''Buy 1 Get 1 Free'' ''50'' (str_int i) = str_int i"
    using replace_skip[where a = "CHR ''B''" and s = "str_int i" and old = "''uy 1 Get 1 Free''"
        and new = "''50''" and t = "[]"] str_int_no_percent(2)[of i] by simp
  show ?thesis by (simp add: a b py_float_str_int)
qed

section \<open>What a refresh leaves behind\<close>

lemma fetch_all_data_fail:
  "fetch_all_data env ca ka s = (Inl e, s') \<Longrightarrow>
     data_cache s' = data_cache s \<and> cache_timestamp s' = cache_timestamp s
     \<and> cache_duration s' = cache_duration s
     \<and> current_city s' = py_or ca (current_city s)
     \<and> current_country s' = py_or ka (current_country s)"
  by (auto simp: fetch_all_data_def Let_def split: prod.splits sum.splits)

lemma fetch_all_data_ok:
  "fetch_all_data env ca ka s = (Inr d, s') \<Longrightarrow>
     data_cache s' = d \<and> cache_timestamp s' = Some (store_now env)
     \<and> cache_duration s' = cache_duration s \<and> d \<noteq> []
     \<and> dict_get (dict_get d ''metadata'' []) ''city'' PNone = PStr (py_or ca (current_city s))
     \<and> current_city s' = py_or ca (current_city s)
     \<and> current_country s' = py_or ka (current_country s)"
  by (auto simp: fetch_all_data_def Let_def dict_get_def split: prod.splits sum.splits)


lemma get_city_data_fetch:
  "needs_fetch now (py_or ca (current_city s)) force s \<Longrightarrow>
   get_city_data env now ca ka force s =
     fetch_all_data env (Some (py_or ca (current_city s))) (Some (py_or ka (current_country s))) s"
  by (auto simp: get_city_data_def Let_def split: prod.splits sum.splits dest: fetch_all_data_ok)

lemma get_city_data_cached:
  "\<not> needs_fetch now (py_or ca (current_city s)) force s \<Longrightarrow>
   get_city_data env now ca ka force s = (Inr (data_cache s), s)"
  by (simp add: get_city_data_def Let_def)

lemma inv_fetch: "server_inv s \<Longrightarrow> server_inv (snd (fetch_all_data env c k s))"
proof -
  assume a: "server_inv s"
  obtain r s' where f: "fetch_all_data env c k s = (r, s')" by (cases "fetch_all_data env c k s")
  show ?thesis
  proof (cases r)
    case (Inl e)
    with f a fetch_all_data_fail[of env c k s e s'] show ?thesis by (simp add: server_inv_def)
  next
    case (Inr d)
    with f a fetch_all_data_ok[of env c k s d s'] show ?thesis by (simp add: server_inv_def)
  qed
qed

lemma inv_get: "server_inv s \<Longrightarrow> server_inv (snd (get_city_data env now c k f s))"
  by (cases "needs_fetch now (py_or c (current_city s)) f s")
     (simp_all add: get_city_data_fetch get_city_data_cached inv_fetch)

lemma snd_answer_query:
  "snd (answer_query env now stamp R q c k s) = snd (get_city_data env now c k False s)"
  by (auto simp: answer_query_def split: prod.splits sum.splits)

lemma reachable_inv: "reachable s \<Longrightarrow> server_inv s"
proof (induction rule: reachable.induct)
  case (reach_new k)
  show ?case by (simp add: server_inv_def new_server_def)
next
  case (reach_fetch s env city country)
  then show ?case by (simp add: inv_fetch)
next
  case (reach_get s env now city country force)
  then show ?case by (simp add: inv_get)
next
  case (reach_answer s env now stamp R query city country)
  then show ?case by (simp add: snd_answer_query inv_get)
qed

section \<open>The ranking of the offers\<close>

lemma map_err_Inr: "map_err f xs = Inr ys \<Longrightarrow> map f xs = map Inr ys"
  by (induction xs arbitrary: ys) (auto split: sum.splits)

lemma map_err_total: "(\<forall>x \<in> set xs. \<exists>y. f x = Inr y) \<Longrightarrow> \<exists>ys. map_err f xs = Inr ys"
  by (induction xs) (auto split: sum.splits)

lemma category_offer_key:
  "category_offer now city d c = Inr v \<Longrightarrow> offer_sort_key v = Inr (of_int (discount d))"
  by (auto simp: category_offer_def offer_text_key split: sum.splits)

lemma category_offers_keys:
  "map_err (\<lambda>c. category_offer now city (rnd c) c) cs = Inr offers \<Longrightarrow>
     map offer_sort_key offers = map (\<lambda>c. Inr (of_int (discount (rnd c)))) cs"
proof (induction cs arbitrary: offers)
  case Nil
  then show ?case by simp
next
  case (Cons c cs)
  then show ?case by (auto split: sum.splits simp: category_offer_key)
qed

lemma featured_offers_keys:
  "featured_offers now city = Inr fs \<Longrightarrow> map offer_sort_key fs = [Inr 50, Inr 20]"
  by (auto simp: featured_offers_def py_float_def is_digit_def digits_val_def split: sum.splits)

lemma zip_keys:
  assumes "map key xs = map Inr ks" and "p \<in> set (zip ks xs)"
  shows "key (snd p) = Inr (fst p)"
proof -
  from assms(1) have len: "length xs = length ks" by (metis length_map)
  from assms(2) obtain i where i: "i < length ks" "i < length xs" "p = (ks ! i, xs ! i)"
    by (auto simp: set_zip)
  from assms(1) i have "map key xs ! i = map Inr ks ! i" by simp
  with i show ?thesis by simp
qed

lemma sorted_reverse_props:
  assumes "sorted_reverse key xs = Inr r"
  shows "mset r = mset xs" and "length r = length xs"
    and "sorted_wrt (\<ge>) (map (\<lambda>x. case key x of Inl e \<Rightarrow> 0 | Inr k \<Rightarrow> k) r)"
proof -
  from assms obtain ks where ks: "map_err key xs = Inr ks"
    and r: "r = map snd (rev (sort_key fst (rev (zip ks xs))))"
    by (auto simp: sorted_reverse_def split: sum.splits)
  have m: "map key xs = map Inr ks" using ks by (rule map_err_Inr)
  then have len: "length ks = length xs" by (metis length_map)
  have "mset r = image_mset snd (mset (zip ks xs))"
    by (simp add: r)
  also have "\<dots> = mset (map snd (zip ks xs))" by simp
  also have "\<dots> = mset xs" using len by simp
  finally show "mset r = mset xs" .
  then show "length r = length xs" by (metis size_mset)
  let ?l = "sort_key fst (rev (zip ks xs))"
  have mem: "\<And>p. p \<in> set ?l \<Longrightarrow> key (snd p) = Inr (fst p)"
    using zip_keys[OF m] by simp
  have "map (\<lambda>p. case key (snd p) of Inl e \<Rightarrow> 0 | Inr k \<Rightarrow> k) ?l = map fst ?l"
    by (rule map_cong[OF refl]) (simp add: mem)
  then have "map (\<lambda>x. case key x of Inl e \<Rightarrow> 0 | Inr k \<Rightarrow> k) r = rev (map fst ?l)"
    by (simp add: r rev_map o_def)
  moreover have "sorted (map fst ?l)" by (rule sorted_sort_key)
  ultimately show "sorted_wrt (\<ge>) (map (\<lambda>x. case key x of Inl e \<Rightarrow> 0 | Inr k \<Rightarrow> k) r)"
    by (simp add: sorted_wrt_rev)
qed

lemma shop_offers_ranked:
  assumes "get_mock_shop_offers now rnd city country = Inr frag"
  shows "\<exists>all best rest.
           map_of frag ''all_offers'' = Some (PList all)
         \<and> map_of frag ''best_deals'' = Some (PList best)
         \<and> map_of frag ''total_offers'' = Some (PInt (int (length all)))
         \<and> map discount_magnitude all
             = 50 # 20 # map (\<lambda>c. of_int (discount (rnd c))) categories
         \<and> length best = 3
         \<and> mset (best @ rest) = mset all
         \<and> sorted_wrt (\<ge>) (map discount_magnitude (best @ rest))"
proof -
  from assms obtain offers featured ranked where
    o: "map_err (\<lambda>c. category_offer now city (rnd c) c) categories = Inr offers"
    and f: "featured_offers now city = Inr featured"
    and s: "sorted_reverse offer_sort_key (featured @ offers) = Inr ranked"
    and frag: "frag = [(''city'', PStr city), (''country'', PStr country),
                 (''total_offers'', PInt (int (length offers) + int (length featured))),
                 (''featured_offers'', PList featured),
                 (''category_offers'', PList offers),
                 (''all_offers'', PList (featured @ offers)),
                 (''best_deals'', PList (take 3 ranked)),
                 (''note'',
                    PStr ''Mock shop offers data - integrate with real APIs for production use'')]"
    by (auto simp: get_mock_shop_offers_def split: sum.splits)
  have ko: "map offer_sort_key offers = map (\<lambda>c. Inr (of_int (discount (rnd c)))) categories"
    using o by (rule category_offers_keys)
  have kf: "map offer_sort_key featured = [Inr 50, Inr 20]"
    using f by (rule featured_offers_keys)
  have "length (map offer_sort_key offers)
          = length (map (\<lambda>c. Inr (of_int (discount (rnd c))) :: error + rat) categories)"
    using ko by simp
  then have lo: "length offers = 5" by (simp add: categories_def)
  have "length (map offer_sort_key featured) = length [Inr 50, Inr 20 :: error + rat]"
    using kf by simp
  then have lf: "length featured = 2" by simp
  have dm: "map discount_magnitude (featured @ offers)
             = 50 # 20 # map (\<lambda>c. of_int (discount (rnd c))) categories"
  proof -
    have "map discount_magnitude (featured @ offers)
            = map (\<lambda>k. case k of Inl e \<Rightarrow> 0 | Inr r \<Rightarrow> r) (map offer_sort_key (featured @ offers))"
      by (simp add: discount_magnitude_def)
    also have "\<dots> = 50 # 20 # map (\<lambda>c. of_int (discount (rnd c))) categories"
      by (simp add: ko kf)
    finally show ?thesis .
  qed
  note p = sorted_reverse_props[OF s]
  have dmf: "discount_magnitude = (\<lambda>x. case offer_sort_key x of Inl e \<Rightarrow> 0 | Inr k \<Rightarrow> k)"
    by (rule ext) (simp add: discount_magnitude_def)
  have lr: "length ranked = 7" using p(2) lo lf by simp
  have "sorted_wrt (\<ge>) (map discount_magnitude (take 3 ranked @ drop 3 ranked))"
    using p(3) by (simp add: dmf)
  moreover have "mset (take 3 ranked @ drop 3 ranked) = mset (featured @ offers)"
    using p(1) by simp
  moreover have "length (take 3 ranked) = 3" using lr by simp
  ultimately show ?thesis
    using dm frag by (intro exI[of _ "featured @ offers"] exI[of _ "take 3 ranked"]
        exI[of _ "drop 3 ranked"]) simp
qed

lemma category_offer_deal:
  "category_offer now city d c = Inr v \<Longrightarrow> \<exists>a b. deal_of v (a, b)"
  by (auto simp: category_offer_def deal_of_def split: sum.splits)

lemma category_offers_deals:
  "map_err (\<lambda>c. category_offer now city (rnd c) c) cs = Inr offers \<Longrightarrow>
     \<forall>v \<in> set offers. \<exists>so. deal_of v so"
proof (induction cs arbitrary: offers)
  case Nil
  then show ?case by simp
next
  case (Cons c cs)
  then show ?case by (auto split: sum.splits intro: category_offer_deal)
qed

lemma featured_offers_deals:
  "featured_offers now city = Inr fs \<Longrightarrow> \<forall>v \<in> set fs. \<exists>so. deal_of v so"
  by (auto simp: featured_offers_def deal_of_def split: sum.splits)

lemma shop_offers_deals:
  assumes "get_mock_shop_offers now rnd city country = Inr frag"
    and "map_of frag ''all_offers'' = Some (PList all)"
  shows "\<forall>v \<in> set all. \<exists>so. deal_of v so"
proof -
  from assms(1) obtain offers featured where
    o: "map_err (\<lambda>c. category_offer now city (rnd c) c) categories = Inr offers"
    and f: "featured_offers now city = Inr featured"
    and a: "map_of frag ''all_offers'' = Some (PList (featured @ offers))"
    by (auto simp: get_mock_shop_offers_def split: sum.splits)
  from a assms(2) have "all = featured @ offers" by simp
  then show ?thesis
    using category_offers_deals[OF o] featured_offers_deals[OF f] by auto
qed

lemma get_mock_shop_offers_total:
  assumes "day now + 3 \<le> days_in_month (year now) (month now)"
    and "\<forall>c \<in> set categories. 1 \<le> day now + day_offset (rnd c)
           \<and> day now + day_offset (rnd c) \<le> days_in_month (year now) (month now)"
  shows "\<exists>frag. get_mock_shop_offers now rnd city country = Inr frag \<and> frag \<noteq> []"
proof -
  have "\<forall>c \<in> set categories. \<exists>v. category_offer now city (rnd c) c = Inr v"
    using assms(2) by (auto simp: category_offer_def valid_until_def replace_day_def)
  then obtain offers where
    o: "map_err (\<lambda>c. category_offer now city (rnd c) c) categories = Inr offers"
    using map_err_total[of categories "\<lambda>c. category_offer now city (rnd c) c"] by blast
  have "\<exists>fs. featured_offers now city = Inr fs"
    using assms(1) by (simp add: featured_offers_def valid_until_def replace_day_def)
  then obtain featured where f: "featured_offers now city = Inr featured" by blast
  have "\<forall>x \<in> set (featured @ offers). \<exists>k. offer_sort_key x = Inr k"
  proof
    fix x assume "x \<in> set (featured @ offers)"
    have "map offer_sort_key (featured @ offers)
            = [Inr 50, Inr 20] @ map (\<lambda>c. Inr (of_int (discount (rnd c)))) categories"
      using category_offers_keys[OF o] featured_offers_keys[OF f] by simp
    then have "\<forall>y \<in> set (map offer_sort_key (featured @ offers)). \<exists>k. y = Inr k" by auto
    then show "\<exists>k. offer_sort_key x = Inr k" using \<open>x \<in> set (featured @ offers)\<close> by auto
  qed
  then obtain ks where "map_err offer_sort_key (featured @ offers) = Inr ks"
    using map_err_total[of "featured @ offers" offer_sort_key] by blast
  then show ?thesis
    using o f by (simp add: get_mock_shop_offers_def sorted_reverse_def)
qed

lemma deal_strings:
  "list_all2 deal_of ds pairs \<Longrightarrow>
     map_err (deal_string R) ds = Inr (map (\<lambda>so. fst so @ '' - '' @ snd so) pairs)"
proof (induction rule: list_all2_induct)
  case Nil
  show ?case by simp
next
  case (Cons d so ds pairs)
  then show ?case by (cases d) (auto simp: deal_of_def)
qed

lemma shop_part_deals:
  assumes "map_of (dict_get cd ''shop_offers'' []) ''best_deals'' = Some (PList deals)"
    and "deals \<noteq> []" and "list_all2 deal_of (take 3 deals) pairs"
  shows "shop_part R cd p =
           Inr (dict_set (fst p) ''shop_offers'' (dict_get cd ''shop_offers'' []),
                snd p @ [''Best deals available: ''
                           @ join '', '' (map (\<lambda>so. fst so @ '' - '' @ snd so) pairs)])"
  using assms deal_strings[OF assms(3), of R]
  by (simp add: shop_part_def Let_def dict_get_def)

lemma shop_part_count:
  assumes "map_of (dict_get cd ''shop_offers'' []) ''best_deals'' = Some (PList [])
           \<or> map_of (dict_get cd ''shop_offers'' []) ''best_deals'' = None"
    and "map_of (dict_get cd ''shop_offers'' []) ''total_offers'' = Some (PInt n)"
  shows "shop_part R cd p =
           Inr (dict_set (fst p) ''shop_offers'' (dict_get cd ''shop_offers'' []),
                snd p @ [''Found '' @ str_int n @ '' offers available in the city.''])"
  using assms by (auto simp: shop_part_def Let_def dict_get_def)

section \<open>The shopping sentence\<close>

lemma join_snoc:
  "join sep (xs @ [x]) = (if xs = [] then x else join sep xs @ sep @ x)"
  by (induction sep xs rule: join.induct) auto

lemma compose_answer_shop:
  assumes "keyword_hit shop_keywords (lower q)"
    and "\<And>p. shop_part R cd p = Inr (dict_set (fst p) ''shop_offers'' offers, snd p @ [sentence])"
  shows "\<exists>pre rd.
           compose_answer R cd q c = Inr (pre @ sentence, rd)
         \<and> (\<not> keyword_hit weather_keywords (lower q) \<and> \<not> keyword_hit temp_keywords (lower q)
              \<and> \<not> keyword_hit traffic_keywords (lower q)
              \<longrightarrow> pre = [] \<and> rd = [(''shop_offers'', offers)])"
proof -
  define p1 :: parts where "p1 = (if keyword_hit weather_keywords (lower q)
                then weather_part R cd c ([], []) else ([], []))"
  define p2 where "p2 = (if keyword_hit temp_keywords (lower q)
                then temperature_part R cd p1 else p1)"
  define p3 where "p3 = (if keyword_hit traffic_keywords (lower q)
                then traffic_part R cd p2 else p2)"
  have e: "\<not> keyword_hit weather_keywords (lower q) \<and> \<not> keyword_hit temp_keywords (lower q)
              \<and> \<not> keyword_hit traffic_keywords (lower q) \<longrightarrow> p3 = ([], [])"
    by (simp add: p1_def p2_def p3_def)
  have "compose_answer R cd q c
          = Inr (join '' '' (snd p3 @ [sentence]), dict_set (fst p3) ''shop_offers'' offers)"
    using assms(1)
    by (simp add: compose_answer_def Let_def assms(2) p1_def p2_def p3_def)
  then have "compose_answer R cd q c
          = Inr ((if snd p3 = [] then [] else join '' '' (snd p3) @ '' '') @ sentence,
                 dict_set (fst p3) ''shop_offers'' offers)"
    by (simp add: join_snoc)
  with e show ?thesis by auto
qed

lemma any_deals_hit: "keyword_hit shop_keywords (lower ''Any deals?'')"
  by (simp add: keyword_hit_def shop_keywords_def lower_def lower_char_def)

lemma example_shop_fragment:
  "\<exists>frag. get_mock_shop_offers (at_time 10 12 0 0) example_draw city country = Inr frag
      \<and> frag \<noteq> []"
  by (rule get_mock_shop_offers_total)
     (simp_all add: at_time_def days_in_month_def example_draw_def)

section \<open>The provider calls of a refresh\<close>

lemma fetch_fails_iff:
  "isl (fst (fetch_all_data env ca ka s)) \<longleftrightarrow>
     isl (fst (temperature_call env (py_or ca (current_city s)) (py_or ka (current_country s)) s))
     \<or> isl (fst (shop_call env (py_or ca (current_city s)) (py_or ka (current_country s)) s))"
  by (auto simp: fetch_all_data_def Let_def split: prod.splits sum.splits)

lemma fetch_ok_cache:
  "fetch_all_data env ca ka s = (Inr d, s') \<Longrightarrow>
     d = [(''weather'',
             data (fst (weather_call env (py_or ca (current_city s)) (py_or ka (current_country s)) s))),
          (''traffic'',
             data (fst (traffic_call env (py_or ca (current_city s)) (py_or ka (current_country s)) s))),
          (''temperature'',
             data (projr (fst (temperature_call env (py_or ca (current_city s))
                                 (py_or ka (current_country s)) s)))),
          (''shop_offers'',
             data (projr (fst (shop_call env (py_or ca (current_city s))
                                 (py_or ka (current_country s)) s)))),
          (''metadata'',
             [(''city'', PStr (py_or ca (current_city s))),
              (''country'', PStr (py_or ka (current_country s))),
              (''fetched_at'', PStr (isoformat (store_now env)))])]"
  by (auto simp: fetch_all_data_def Let_def split: prod.splits sum.splits)

lemma fetch_providers:
  "weather_provider (snd (fetch_all_data env ca ka s))
     = snd (weather_call env (py_or ca (current_city s)) (py_or ka (current_country s)) s)"
  "traffic_provider (snd (fetch_all_data env ca ka s))
     = snd (traffic_call env (py_or ca (current_city s)) (py_or ka (current_country s)) s)"
  "temperature_provider (snd (fetch_all_data env ca ka s))
     = snd (temperature_call env (py_or ca (current_city s)) (py_or ka (current_country s)) s)"
  "shop_offers_provider (snd (fetch_all_data env ca ka s))
     = snd (shop_call env (py_or ca (current_city s)) (py_or ka (current_country s)) s)"
  by (auto simp: fetch_all_data_def Let_def split: prod.splits sum.splits)

lemma py_or_Some [simp]: "s \<noteq> [] \<Longrightarrow> py_or (Some s) d = s"
  by (simp add: py_or_def)

lemma new_cache_lookup:
  "cache_lookup now (new_provider k) = None" "cache_lookup now (new_temperature_provider k) = None"
  by (simp_all add: cache_lookup_def provider_is_cache_valid_def new_provider_def
        new_temperature_provider_def)

lemma temperature_mock:
  "\<exists>d. temperature_fetch_data now http chill city country (new_temperature_provider None)
          = (Inr (format_response ''TemperatureProvider'' now d),
             (new_temperature_provider None)\<lparr>cached_data := Some d, last_fetch_time := Some now\<rparr>)
      \<and> map_of d ''city'' = Some (PStr city) \<and> d \<noteq> []"
  by (simp add: temperature_fetch_data_def new_cache_lookup weather_fetch_data_def
        new_temperature_provider_def new_provider_def py_or_def weather_get_mock_data_def
        format_response_def dict_get_def calculate_wind_chill_def Let_def
        cache_lookup_def provider_is_cache_valid_def)

lemma shop_mock:
  "get_mock_shop_offers now rnd city country = Inr frag \<Longrightarrow>
     shop_fetch_data now rnd city country (new_provider None)
       = (Inr (format_response ''ShopOffersProvider'' now frag),
          (new_provider None)\<lparr>cached_data := Some frag, last_fetch_time := Some now\<rparr>)"
  by (simp add: shop_fetch_data_def new_cache_lookup)

lemma shop_fragment_city:
  "get_mock_shop_offers now rnd city country = Inr frag \<Longrightarrow>
     map_of frag ''city'' = Some (PStr city) \<and> frag \<noteq> []"
  by (auto simp: get_mock_shop_offers_def split: sum.splits)

lemma traffic_mock:
  "traffic_fetch_data now rnd city country (new_provider None)
     = (format_response ''TrafficProvider'' now (get_mock_traffic_data rnd city country),
        (new_provider None)\<lparr>cached_data := Some (get_mock_traffic_data rnd city country),
                              last_fetch_time := Some now\<rparr>)"
  by (simp add: traffic_fetch_data_def new_cache_lookup Let_def)

lemma traffic_fragment_city:
  "map_of (get_mock_traffic_data rnd city country) ''city'' = Some (PStr city)
   \<and> get_mock_traffic_data rnd city country \<noteq> []"
  by (simp add: get_mock_traffic_data_def Let_def)

lemma weather_no_key:
  "weather_fetch_data now http city country (new_provider None)
     = (weather_get_mock_data now city country, new_provider None)"
  by (simp add: weather_fetch_data_def cache_lookup_def provider_is_cache_valid_def
        new_provider_def py_or_def)

lemma cache_lookup_hit:
  "last_fetch_time p = Some t \<Longrightarrow> provider_cache_duration p = 300 \<Longrightarrow>
   total_seconds now t < 300 \<Longrightarrow> cached_data p = Some d \<Longrightarrow> d \<noteq> [] \<Longrightarrow>
     cache_lookup now p = Some d"
  by (simp add: cache_lookup_def provider_is_cache_valid_def)

lemma cache_lookup_stale:
  "last_fetch_time p = Some t \<Longrightarrow> provider_cache_duration p = 300 \<Longrightarrow>
   \<not> total_seconds now t < 300 \<Longrightarrow> cache_lookup now p = None"
  by (simp add: cache_lookup_def provider_is_cache_valid_def)

lemma ten_seconds: "total_seconds (at_time 10 12 0 10) (at_time 10 12 0 0) = 10"
  by (simp add: total_seconds_def to_microseconds_def at_time_def)

lemma five_minutes: "total_seconds (at_time 10 12 5 0) (at_time 10 12 0 0) = 300"
  by (simp add: total_seconds_def to_microseconds_def at_time_def)

lemma three_weeks: "total_seconds (at_time 31 12 0 0) (at_time 10 12 0 0) = 1814400"
  by (simp add: total_seconds_def to_microseconds_def at_time_def ymd2ord_def)


lemma london_fetch:
  "\<exists>d tmp frag.
      fetch_all_data (example_env (at_time 10 12 0 0)) (Some ''London'') (Some ''GB'')
        (new_server None) = (Inr d, london_server)
    \<and> weather_provider london_server = new_provider None
    \<and> traffic_provider london_server =
         (new_provider None)\<lparr>cached_data :=
             Some (get_mock_traffic_data (\<lambda>i. (''low'', 5)) ''London'' ''GB''),
           last_fetch_time := Some (at_time 10 12 0 0)\<rparr>
    \<and> temperature_provider london_server =
         (new_temperature_provider None)\<lparr>cached_data := Some tmp,
           last_fetch_time := Some (at_time 10 12 0 0)\<rparr>
    \<and> map_of tmp ''city'' = Some (PStr ''London'') \<and> tmp \<noteq> []
    \<and> shop_offers_provider london_server =
         (new_provider None)\<lparr>cached_data := Some frag,
           last_fetch_time := Some (at_time 10 12 0 0)\<rparr>
    \<and> map_of frag ''city'' = Some (PStr ''London'') \<and> frag \<noteq> []
    \<and> d = [(''weather'', data (weather_get_mock_data (at_time 10 12 0 0) ''London'' ''GB'')),
           (''traffic'', get_mock_traffic_data (\<lambda>i. (''low'', 5)) ''London'' ''GB''),
           (''temperature'', tmp),
           (''shop_offers'', frag),
           (''metadata'',
              [(''city'', PStr ''London''), (''country'', PStr ''GB''),
               (''fetched_at'', PStr (isoformat (at_time 10 12 0 0)))])]"
proof -
  let ?t = "at_time 10 12 0 0"
  let ?env = "example_env ?t"
  let ?s = "new_server None"
  have c: "py_or (Some ''London'') (current_city ?s) = ''London''"
          "py_or (Some ''GB'') (current_country ?s) = ''GB''"
    by simp_all
  obtain frag where
    f: "get_mock_shop_offers ?t example_draw ''London'' ''GB'' = Inr frag"
    using example_shop_fragment by blast
  have sh: "shop_call ?env ''London'' ''GB'' ?s
              = (Inr (format_response ''ShopOffersProvider'' ?t frag),
                 (new_provider None)\<lparr>cached_data := Some frag, last_fetch_time := Some ?t\<rparr>)"
    using shop_mock[OF f] by (simp add: example_env_def new_server_def)
  obtain tmp where
    tm: "temperature_call ?env ''London'' ''GB'' ?s
              = (Inr (format_response ''TemperatureProvider'' ?t tmp),
                 (new_temperature_provider None)\<lparr>cached_data := Some tmp,
                    last_fetch_time := Some ?t\<rparr>)"
    and tc: "map_of tmp ''city'' = Some (PStr ''London'')" "tmp \<noteq> []"
    using temperature_mock[of ?t HttpFailed "\<lambda>temp w. temp - w / 2" "''London''" "''GB''"]
    by (auto simp: example_env_def new_server_def)
  have tr: "traffic_call ?env ''London'' ''GB'' ?s
              = (format_response ''TrafficProvider'' ?t
                   (get_mock_traffic_data (\<lambda>i. (''low'', 5)) ''London'' ''GB''),
                 (new_provider None)\<lparr>cached_data :=
                    Some (get_mock_traffic_data (\<lambda>i. (''low'', 5)) ''London'' ''GB''),
                    last_fetch_time := Some ?t\<rparr>)"
    by (simp add: traffic_mock example_env_def new_server_def)
  have we: "weather_call ?env ''London'' ''GB'' ?s
              = (weather_get_mock_data ?t ''London'' ''GB'', new_provider None)"
    by (simp add: weather_no_key example_env_def new_server_def)
  have "\<not> isl (fst (fetch_all_data ?env (Some ''London'') (Some ''GB'') ?s))"
    by (simp add: fetch_fails_iff c sh tm)
  then obtain d where "fst (fetch_all_data ?env (Some ''London'') (Some ''GB'') ?s) = Inr d"
    by (cases "fst (fetch_all_data ?env (Some ''London'') (Some ''GB'') ?s)") auto
  then have d: "fetch_all_data ?env (Some ''London'') (Some ''GB'') ?s = (Inr d, london_server)"
    by (simp add: london_server_def prod_eq_iff)
  have p: "weather_provider london_server = new_provider None"
    "traffic_provider london_server =
         (new_provider None)\<lparr>cached_data :=
             Some (get_mock_traffic_data (\<lambda>i. (''low'', 5)) ''London'' ''GB''),
           last_fetch_time := Some ?t\<rparr>"
    "temperature_provider london_server =
         (new_temperature_provider None)\<lparr>cached_data := Some tmp, last_fetch_time := Some ?t\<rparr>"
    "shop_offers_provider london_server =
         (new_provider None)\<lparr>cached_data := Some frag, last_fetch_time := Some ?t\<rparr>"
    unfolding london_server_def fetch_providers c by (simp_all add: we tr tm sh)
  have "d = [(''weather'', data (weather_get_mock_data ?t ''London'' ''GB'')),
           (''traffic'', get_mock_traffic_data (\<lambda>i. (''low'', 5)) ''London'' ''GB''),
           (''temperature'', tmp),
           (''shop_offers'', frag),
           (''metadata'',
              [(''city'', PStr ''London''), (''country'', PStr ''GB''),
               (''fetched_at'', PStr (isoformat (store_now ?env)))])]"
    using fetch_ok_cache[OF d] by (simp add: c we tr tm sh format_response_def)
  then have l: "d = [(''weather'', data (weather_get_mock_data ?t ''London'' ''GB'')),
           (''traffic'', get_mock_traffic_data (\<lambda>i. (''low'', 5)) ''London'' ''GB''),
           (''temperature'', tmp),
           (''shop_offers'', frag),
           (''metadata'',
              [(''city'', PStr ''London''), (''country'', PStr ''GB''),
               (''fetched_at'', PStr (isoformat ?t))])]"
    by (simp add: example_env_def)
  from d p tc shop_fragment_city[OF f] l show ?thesis by blast
qed

lemma london_facts:
  "cache_timestamp london_server = Some (at_time 10 12 0 0)"
  "cache_duration london_server = 300"
  "data_cache london_server \<noteq> []"
  "cached_meta london_server ''city'' = PStr ''London''"
  "cached_meta london_server ''country'' = PStr ''GB''"
  "current_city london_server = ''London''"
  "current_country london_server = ''GB''"
proof -
  obtain d where
    f: "fetch_all_data (example_env (at_time 10 12 0 0)) (Some ''London'') (Some ''GB'')
          (new_server None) = (Inr d, london_server)"
    using london_fetch by blast
  note k = fetch_all_data_ok[OF f] fetch_ok_cache[OF f]
  show "cache_timestamp london_server = Some (at_time 10 12 0 0)"
    using k by (simp add: example_env_def)
  show "cache_duration london_server = 300" using k by (simp add: new_server_def)
  show "data_cache london_server \<noteq> []" using k by simp
  show "cached_meta london_server ''city'' = PStr ''London''"
    using k by (simp add: cached_meta_def new_server_def)
  show "cached_meta london_server ''country'' = PStr ''GB''"
    using k(1) k(2) by (simp add: cached_meta_def dict_get_def)
  show "current_city london_server = ''London''" using k by simp
  show "current_country london_server = ''GB''" using k by simp
qed

section \<open>When the cache is served and when it is refreshed\<close>

lemma london_reachable: "reachable london_server"
  unfolding london_server_def by (rule reach_fetch) (rule reach_new)

lemma london_young: "is_cache_valid (at_time 10 12 0 10) london_server"
  by (simp add: is_cache_valid_def london_facts ten_seconds)

lemma london_city_valid: "city_valid (at_time 10 12 0 10) ''London'' london_server"
  by (simp add: city_valid_def snapshot_age_below_def london_facts ten_seconds)

text \<open>
  C5. In every reachable state the cache duration is 300 seconds, a fetch time is
  recorded exactly when a snapshot is cached, and \<open>is_cache_valid\<close> holds exactly when a
  fetch time is recorded and the seconds since then are strictly fewer than 300.
\<close>

theorem cache_valid_iff_young:
  "reachable s \<Longrightarrow>
     cache_duration s = 300
     \<and> ((\<exists>t. cache_timestamp s = Some t) \<longleftrightarrow> data_cache s \<noteq> [])
     \<and> (is_cache_valid now s \<longleftrightarrow>
          (\<exists>t. cache_timestamp s = Some t \<and> total_seconds now t < 300))"
  using reachable_inv[of s]
  by (auto simp: server_inv_def is_cache_valid_def split: option.splits)

theorem cache_valid_iff_young_witness:
  "reachable london_server
   \<and> cache_duration london_server = 300
   \<and> is_cache_valid (at_time 10 12 0 10) london_server
   \<and> \<not> is_cache_valid (at_time 10 12 5 0) london_server"
  using cache_valid_iff_young[OF london_reachable, of "at_time 10 12 0 10"]
    cache_valid_iff_young[OF london_reachable, of "at_time 10 12 5 0"]
    london_reachable london_facts(1) ten_seconds five_minutes
  by simp

text \<open>
  C1, as amended. In every reachable state \<open>get_city_data\<close> runs a full refresh exactly
  when \<open>force_refresh\<close> is set or the cache is not valid for the requested city, where
  valid means: a snapshot is cached, its age is below 300 seconds and its city is the
  requested one. The country is not compared. Without a refresh the cached data is
  returned and nothing changes.
\<close>

theorem get_city_data_refresh_iff:
  "reachable s \<Longrightarrow>
     (needs_fetch now (py_or city (current_city s)) force s
        \<longleftrightarrow> force \<or> \<not> city_valid now (py_or city (current_city s)) s)
     \<and> get_city_data env now city country force s =
         (if force \<or> \<not> city_valid now (py_or city (current_city s)) s
          then fetch_all_data env (Some (py_or city (current_city s)))
                 (Some (py_or country (current_country s))) s
          else (Inr (data_cache s), s))"
proof -
  assume r: "reachable s"
  have inv: "cache_duration s = 300" "cache_timestamp s = None \<longleftrightarrow> data_cache s = []"
    using reachable_inv[OF r] by (simp_all add: server_inv_def)
  have iff: "needs_fetch now (py_or city (current_city s)) force s
        \<longleftrightarrow> force \<or> \<not> city_valid now (py_or city (current_city s)) s"
    using inv
    by (auto simp: needs_fetch_def is_cache_valid_def city_valid_def snapshot_age_below_def
          cached_meta_def split: option.splits)
  show ?thesis
    using iff get_city_data_fetch[of now city s force env country]
      get_city_data_cached[of now city s force env country]
    by (cases "needs_fetch now (py_or city (current_city s)) force s") simp_all
qed

theorem get_city_data_refresh_iff_witness:
  "reachable london_server
   \<and> get_city_data (example_env (at_time 10 12 0 10)) (at_time 10 12 0 10)
        (Some ''London'') (Some ''GB'') False london_server
      = (Inr (data_cache london_server), london_server)
   \<and> get_city_data (example_env (at_time 10 12 0 10)) (at_time 10 12 0 10)
        (Some ''London'') (Some ''GB'') True london_server
      = fetch_all_data (example_env (at_time 10 12 0 10)) (Some ''London'') (Some ''GB'')
          london_server"
  using get_city_data_refresh_iff[OF london_reachable, of "at_time 10 12 0 10" "Some ''London''"
      False "example_env (at_time 10 12 0 10)" "Some ''GB''"]
    get_city_data_refresh_iff[OF london_reachable, of "at_time 10 12 0 10" "Some ''London''"
      True "example_env (at_time 10 12 0 10)" "Some ''GB''"]
    london_city_valid london_reachable
  by simp

text \<open>
  C1 as stated fails: ten seconds after a refresh for London, GB, a request for London, CA
  finds a cache that is not valid in the specification's sense, and is served from it
  without a refresh.
\<close>

theorem other_country_served_from_cache:
  "\<not> spec_valid (at_time 10 12 0 10) ''London'' ''CA'' london_server
   \<and> \<not> needs_fetch (at_time 10 12 0 10) ''London'' False london_server
   \<and> get_city_data (example_env (at_time 10 12 0 10)) (at_time 10 12 0 10)
        (Some ''London'') (Some ''CA'') False london_server
      = (Inr (data_cache london_server), london_server)"
proof -
  have a: "\<not> spec_valid (at_time 10 12 0 10) ''London'' ''CA'' london_server"
    by (simp add: spec_valid_def london_facts)
  have b: "\<not> needs_fetch (at_time 10 12 0 10) ''London'' False london_server"
    using london_young london_facts(4) by (simp add: needs_fetch_def cached_meta_def)
  have "get_city_data (example_env (at_time 10 12 0 10)) (at_time 10 12 0 10)
        (Some ''London'') (Some ''CA'') False london_server
      = (Inr (data_cache london_server), london_server)"
    using b get_city_data_cached[of "at_time 10 12 0 10" "Some ''London''" london_server False
        "example_env (at_time 10 12 0 10)" "Some ''CA''"]
    by simp
  with a b show ?thesis by simp
qed



section \<open>A refresh that fails\<close>

lemma month_end_shop_raises:
  "days_in_month (year now) (month now) < day now + 3 \<Longrightarrow>
     get_mock_shop_offers now rnd city country = Inl ValueError"
proof -
  assume a: "days_in_month (year now) (month now) < day now + 3"
  have f: "featured_offers now city = Inl ValueError"
    using a by (simp add: featured_offers_def valid_until_def replace_day_def)
  have v: "\<And>k. valid_until now k = Inl ValueError \<or> (\<exists>u. valid_until now k = Inr u)"
    by (simp add: valid_until_def replace_day_def)
  have c: "category_offer now city d c = Inl ValueError
                 \<or> (\<exists>v. category_offer now city d c = Inr v)" for d c
    using v[of "day_offset d"] by (auto simp: category_offer_def split: sum.splits)
  have m: "\<And>cs. map_err (\<lambda>c. category_offer now city (rnd c) c) cs = Inl ValueError
              \<or> (\<exists>os. map_err (\<lambda>c. category_offer now city (rnd c) c) cs = Inr os)"
  proof -
    fix cs
    show "map_err (\<lambda>c. category_offer now city (rnd c) c) cs = Inl ValueError
              \<or> (\<exists>os. map_err (\<lambda>c. category_offer now city (rnd c) c) cs = Inr os)"
    proof (induction cs)
      case Nil
      show ?case by simp
    next
      case (Cons x xs)
      from c[of "rnd x" x] Cons show ?case by (auto split: sum.splits)
    qed
  qed
  from m[of categories] f show ?thesis
    by (auto simp: get_mock_shop_offers_def split: sum.splits)
qed

lemma day31: "days_in_month (year (at_time 31 12 0 0)) (month (at_time 31 12 0 0))
                < Spec2Isabelle.day (at_time 31 12 0 0) + 3"
  by (simp add: at_time_def days_in_month_def)

lemma paris_fails:
  "fst (fetch_all_data (example_env (at_time 31 12 0 0)) (Some ''Paris'') (Some ''FR'')
          london_server) = Inl ValueError"
proof -
  let ?t = "at_time 31 12 0 0"
  obtain tmp frag where
    p: "temperature_provider london_server =
         (new_temperature_provider None)\<lparr>cached_data := Some tmp,
           last_fetch_time := Some (at_time 10 12 0 0)\<rparr>"
       "shop_offers_provider london_server =
         (new_provider None)\<lparr>cached_data := Some frag,
           last_fetch_time := Some (at_time 10 12 0 0)\<rparr>"
    using london_fetch by blast
  have ct: "cache_lookup ?t (temperature_provider london_server) = None"
    by (rule cache_lookup_stale[where t = "at_time 10 12 0 0"])
       (simp_all add: p new_temperature_provider_def three_weeks)
  have cs: "cache_lookup ?t (shop_offers_provider london_server) = None"
    by (rule cache_lookup_stale[where t = "at_time 10 12 0 0"])
       (simp_all add: p new_provider_def three_weeks)
  have sh: "fst (shop_call (example_env ?t) ''Paris'' ''FR'' london_server) = Inl ValueError"
    by (simp add: shop_fetch_data_def example_env_def cs month_end_shop_raises[OF day31])
  have tm: "\<not> isl (fst (temperature_call (example_env ?t) ''Paris'' ''FR'' london_server))"
    by (simp add: temperature_fetch_data_def example_env_def ct p weather_fetch_data_def
        new_temperature_provider_def new_provider_def py_or_def weather_get_mock_data_def
        format_response_def dict_get_def calculate_wind_chill_def Let_def
        cache_lookup_def provider_is_cache_valid_def)
  have "isl (fst (fetch_all_data (example_env ?t) (Some ''Paris'') (Some ''FR'') london_server))"
    by (simp add: fetch_fails_iff sh)
  then obtain e where
    e: "fst (fetch_all_data (example_env ?t) (Some ''Paris'') (Some ''FR'') london_server) = Inl e"
    by (cases "fst (fetch_all_data (example_env ?t) (Some ''Paris'') (Some ''FR'') london_server)")
       auto
  have "e = ValueError"
    using e tm sh
    by (auto simp: fetch_all_data_def Let_def split: prod.splits sum.splits)
  with e show ?thesis by simp
qed

text \<open>
  C2, at a failing input: on 31 January a ShopOffersProvider without cached data raises
  ValueError from \<open>fetch_data\<close> (the day of the month is moved past the end of the
  month) and stores nothing.
\<close>

theorem shop_fetch_data_raises_at_month_end:
  "shop_fetch_data (at_time 31 12 0 0) example_draw ''London'' ''GB'' (new_provider None)
     = (Inl ValueError, new_provider None)"
  by (simp add: shop_fetch_data_def new_cache_lookup month_end_shop_raises[OF day31])

text \<open>
  C10. A refresh that fails leaves the requested city and country (after their defaults)
  as the current ones, with the cache and its fetch time as before; a later
  \<open>get_city_data\<close> without city and country is the one for that city and country.
\<close>

theorem failed_refresh_keeps_new_context:
  "fetch_all_data env city country s = (Inl e, s') \<Longrightarrow>
     current_city s' = py_or city (current_city s)
     \<and> current_country s' = py_or country (current_country s)
     \<and> data_cache s' = data_cache s \<and> cache_timestamp s' = cache_timestamp s
     \<and> get_city_data env2 now None None force s' =
         get_city_data env2 now (Some (py_or city (current_city s)))
           (Some (py_or country (current_country s))) force s'"
proof -
  assume f: "fetch_all_data env city country s = (Inl e, s')"
  note k = fetch_all_data_fail[OF f]
  have "get_city_data env2 now None None force s' =
         get_city_data env2 now (Some (current_city s')) (Some (current_country s')) force s'"
    by (simp add: get_city_data_def py_or_def)
  with k show ?thesis by simp
qed

theorem failed_refresh_keeps_new_context_witness:
  "fst (fetch_all_data (example_env (at_time 31 12 0 0)) (Some ''Paris'') (Some ''FR'') london_server)
     = Inl ValueError
   \<and> current_city london_server = ''London''
   \<and> current_city (snd (fetch_all_data (example_env (at_time 31 12 0 0)) (Some ''Paris'')
        (Some ''FR'') london_server)) = ''Paris''
   \<and> current_country (snd (fetch_all_data (example_env (at_time 31 12 0 0)) (Some ''Paris'')
        (Some ''FR'') london_server)) = ''FR''
   \<and> data_cache (snd (fetch_all_data (example_env (at_time 31 12 0 0)) (Some ''Paris'')
        (Some ''FR'') london_server)) = data_cache london_server
   \<and> cache_timestamp (snd (fetch_all_data (example_env (at_time 31 12 0 0)) (Some ''Paris'')
        (Some ''FR'') london_server)) = cache_timestamp london_server"
proof -
  let ?f = "fetch_all_data (example_env (at_time 31 12 0 0)) (Some ''Paris'') (Some ''FR'')
              london_server"
  have g: "?f = (Inl ValueError, snd ?f)"
    using paris_fails by (simp add: prod_eq_iff)
  note w = failed_refresh_keeps_new_context[OF g]
  from w paris_fails london_facts(6) show ?thesis by simp
qed

section \<open>What a refresh puts into the cache\<close>

lemma paris_after_london:
  assumes "fetch_all_data (example_env (at_time 10 12 0 10)) (Some ''Paris'') (Some ''FR'')
             london_server = (r, s')"
  shows "\<exists>snap. r = Inr snap
    \<and> dict_get (dict_get snap ''metadata'' []) ''city'' PNone = PStr ''Paris''
    \<and> dict_get (dict_get snap ''weather'' []) ''city'' PNone = PStr ''Paris''
    \<and> dict_get (dict_get snap ''traffic'' []) ''city'' PNone = PStr ''London''
    \<and> dict_get (dict_get snap ''temperature'' []) ''city'' PNone = PStr ''London''
    \<and> dict_get (dict_get snap ''shop_offers'' []) ''city'' PNone = PStr ''London''"
proof -
  let ?t = "at_time 10 12 0 10"
  let ?env = "example_env ?t"
  obtain tmp frag where
    p: "weather_provider london_server = new_provider None"
       "traffic_provider london_server =
         (new_provider None)\<lparr>cached_data :=
             Some (get_mock_traffic_data (\<lambda>i. (''low'', 5)) ''London'' ''GB''),
           last_fetch_time := Some (at_time 10 12 0 0)\<rparr>"
       "temperature_provider london_server =
         (new_temperature_provider None)\<lparr>cached_data := Some tmp,
           last_fetch_time := Some (at_time 10 12 0 0)\<rparr>"
       "shop_offers_provider london_server =
         (new_provider None)\<lparr>cached_data := Some frag,
           last_fetch_time := Some (at_time 10 12 0 0)\<rparr>"
    and c: "map_of tmp ''city'' = Some (PStr ''London'')" "tmp \<noteq> []"
           "map_of frag ''city'' = Some (PStr ''London'')" "frag \<noteq> []"
    using london_fetch by blast
  have ctr: "cache_lookup ?t (traffic_provider london_server)
               = Some (get_mock_traffic_data (\<lambda>i. (''low'', 5)) ''London'' ''GB'')"
    by (rule cache_lookup_hit[where t = "at_time 10 12 0 0"])
       (simp_all add: p new_provider_def ten_seconds traffic_fragment_city)
  have ctm: "cache_lookup ?t (temperature_provider london_server) = Some tmp"
    by (rule cache_lookup_hit[where t = "at_time 10 12 0 0"])
       (simp_all add: p new_temperature_provider_def ten_seconds c)
  have csh: "cache_lookup ?t (shop_offers_provider london_server) = Some frag"
    by (rule cache_lookup_hit[where t = "at_time 10 12 0 0"])
       (simp_all add: p new_provider_def ten_seconds c)
  have we: "weather_call ?env ''Paris'' ''FR'' london_server
              = (weather_get_mock_data ?t ''Paris'' ''FR'', new_provider None)"
    by (simp add: p weather_no_key example_env_def)
  have tr: "fst (traffic_call ?env ''Paris'' ''FR'' london_server)
              = format_response ''TrafficProvider'' ?t
                  (get_mock_traffic_data (\<lambda>i. (''low'', 5)) ''London'' ''GB'')"
    using ctr by (simp add: traffic_fetch_data_def example_env_def)
  have tm: "fst (temperature_call ?env ''Paris'' ''FR'' london_server)
              = Inr (format_response ''TemperatureProvider'' ?t tmp)"
    using ctm by (simp add: temperature_fetch_data_def example_env_def)
  have sh: "fst (shop_call ?env ''Paris'' ''FR'' london_server)
              = Inr (format_response ''ShopOffersProvider'' ?t frag)"
    using csh by (simp add: shop_fetch_data_def example_env_def)
  have k: "py_or (Some ''Paris'') (current_city london_server) = ''Paris''"
          "py_or (Some ''FR'') (current_country london_server) = ''FR''"
    by simp_all
  have "\<not> isl r"
    using fetch_fails_iff[of ?env "Some ''Paris''" "Some ''FR''" london_server] assms
    by (simp add: k tm sh)
  then obtain snap where r: "r = Inr snap" by (cases r) auto
  with assms have g: "fetch_all_data ?env (Some ''Paris'') (Some ''FR'') london_server
                        = (Inr snap, s')" by simp
  have "snap = [(''weather'', data (weather_get_mock_data ?t ''Paris'' ''FR'')),
          (''traffic'', get_mock_traffic_data (\<lambda>i. (''low'', 5)) ''London'' ''GB''),
          (''temperature'', tmp),
          (''shop_offers'', frag),
          (''metadata'',
             [(''city'', PStr ''Paris''), (''country'', PStr ''FR''),
              (''fetched_at'', PStr (isoformat (store_now ?env)))])]"
    using fetch_ok_cache[OF g] by (simp add: k we tr tm sh format_response_def)
  then show ?thesis
    using r c traffic_fragment_city[of "\<lambda>i. (''low'', 5)" "''London''" "''GB''"]
    by (simp add: dict_get_def weather_get_mock_data_def format_response_def)
qed

text \<open>
  C3, at a failing input: ten seconds after a refresh for London, GB, a refresh for Paris,
  FR succeeds with a snapshot whose metadata and weather fragment name Paris, while its
  traffic, temperature and shop-offers fragments are the ones of London, served from the
  providers' own caches.
\<close>

theorem city_switch_serves_previous_city:
  "\<exists>snap s'.
      fetch_all_data (example_env (at_time 10 12 0 10)) (Some ''Paris'') (Some ''FR'')
        london_server = (Inr snap, s')
    \<and> dict_get (dict_get snap ''metadata'' []) ''city'' PNone = PStr ''Paris''
    \<and> dict_get (dict_get snap ''weather'' []) ''city'' PNone = PStr ''Paris''
    \<and> dict_get (dict_get snap ''traffic'' []) ''city'' PNone = PStr ''London''
    \<and> dict_get (dict_get snap ''temperature'' []) ''city'' PNone = PStr ''London''
    \<and> dict_get (dict_get snap ''shop_offers'' []) ''city'' PNone = PStr ''London''"
proof -
  obtain r s' where
    f: "fetch_all_data (example_env (at_time 10 12 0 10)) (Some ''Paris'') (Some ''FR'')
          london_server = (r, s')"
    by (cases "fetch_all_data (example_env (at_time 10 12 0 10)) (Some ''Paris'') (Some ''FR'')
          london_server")
  from paris_after_london[OF f] f show ?thesis by auto
qed

text \<open>
  C4, at a failing input: ten seconds after the refresh for London, GB, the refresh for
  Paris, FR succeeds and replaces the cache and its fetch time, but the traffic,
  temperature and shop-offers fragments of the new cache are the fragments of the previous
  refresh, not fragments of this one; only the weather fragment is new.
\<close>

theorem successful_refresh_mixes_cycles:
  "\<exists>snap s'.
      fetch_all_data (example_env (at_time 10 12 0 10)) (Some ''Paris'') (Some ''FR'')
        london_server = (Inr snap, s')
    \<and> data_cache s' = snap
    \<and> cache_timestamp london_server = Some (at_time 10 12 0 0)
    \<and> cache_timestamp s' = Some (at_time 10 12 0 10)
    \<and> dict_get (dict_get snap ''metadata'' []) ''city'' PNone = PStr ''Paris''
    \<and> dict_get snap ''traffic'' [] = dict_get (data_cache london_server) ''traffic'' []
    \<and> dict_get snap ''temperature'' [] = dict_get (data_cache london_server) ''temperature'' []
    \<and> dict_get snap ''shop_offers'' [] = dict_get (data_cache london_server) ''shop_offers'' []
    \<and> dict_get snap ''weather'' [] \<noteq> dict_get (data_cache london_server) ''weather'' []
    \<and> dict_get (dict_get snap ''traffic'' []) ''city'' PNone = PStr ''London''"
proof -
  let ?t = "at_time 10 12 0 10"
  let ?env = "example_env ?t"
  obtain d tmp frag where
    f0: "fetch_all_data (example_env (at_time 10 12 0 0)) (Some ''London'') (Some ''GB'')
           (new_server None) = (Inr d, london_server)"
    and p: "weather_provider london_server = new_provider None"
       "traffic_provider london_server =
         (new_provider None)\<lparr>cached_data :=
             Some (get_mock_traffic_data (\<lambda>i. (''low'', 5)) ''London'' ''GB''),
           last_fetch_time := Some (at_time 10 12 0 0)\<rparr>"
       "temperature_provider london_server =
         (new_temperature_provider None)\<lparr>cached_data := Some tmp,
           last_fetch_time := Some (at_time 10 12 0 0)\<rparr>"
       "shop_offers_provider london_server =
         (new_provider None)\<lparr>cached_data := Some frag,
           last_fetch_time := Some (at_time 10 12 0 0)\<rparr>"
    and c: "map_of tmp ''city'' = Some (PStr ''London'')" "tmp \<noteq> []"
           "map_of frag ''city'' = Some (PStr ''London'')" "frag \<noteq> []"
    and d: "d = [(''weather'', data (weather_get_mock_data (at_time 10 12 0 0) ''London'' ''GB'')),
           (''traffic'', get_mock_traffic_data (\<lambda>i. (''low'', 5)) ''London'' ''GB''),
           (''temperature'', tmp),
           (''shop_offers'', frag),
           (''metadata'',
              [(''city'', PStr ''London''), (''country'', PStr ''GB''),
               (''fetched_at'', PStr (isoformat (at_time 10 12 0 0)))])]"
    using london_fetch by blast
  have old: "data_cache london_server = d" using fetch_all_data_ok[OF f0] by simp
  have ctr: "cache_lookup ?t (traffic_provider london_server)
               = Some (get_mock_traffic_data (\<lambda>i. (''low'', 5)) ''London'' ''GB'')"
    by (rule cache_lookup_hit[where t = "at_time 10 12 0 0"])
       (simp_all add: p new_provider_def ten_seconds traffic_fragment_city)
  have ctm: "cache_lookup ?t (temperature_provider london_server) = Some tmp"
    by (rule cache_lookup_hit[where t = "at_time 10 12 0 0"])
       (simp_all add: p new_temperature_provider_def ten_seconds c)
  have csh: "cache_lookup ?t (shop_offers_provider london_server) = Some frag"
    by (rule cache_lookup_hit[where t = "at_time 10 12 0 0"])
       (simp_all add: p new_provider_def ten_seconds c)
  have we: "weather_call ?env ''Paris'' ''FR'' london_server
              = (weather_get_mock_data ?t ''Paris'' ''FR'', new_provider None)"
    by (simp add: p weather_no_key example_env_def)
  have tr: "fst (traffic_call ?env ''Paris'' ''FR'' london_server)
              = format_response ''TrafficProvider'' ?t
                  (get_mock_traffic_data (\<lambda>i. (''low'', 5)) ''London'' ''GB'')"
    using ctr by (simp add: traffic_fetch_data_def example_env_def)
  have tm: "fst (temperature_call ?env ''Paris'' ''FR'' london_server)
              = Inr (format_response ''TemperatureProvider'' ?t tmp)"
    using ctm by (simp add: temperature_fetch_data_def example_env_def)
  have sh: "fst (shop_call ?env ''Paris'' ''FR'' london_server)
              = Inr (format_response ''ShopOffersProvider'' ?t frag)"
    using csh by (simp add: shop_fetch_data_def example_env_def)
  have k: "py_or (Some ''Paris'') (current_city london_server) = ''Paris''"
          "py_or (Some ''FR'') (current_country london_server) = ''FR''"
    by simp_all
  obtain r s' where
    f: "fetch_all_data ?env (Some ''Paris'') (Some ''FR'') london_server = (r, s')"
    by (cases "fetch_all_data ?env (Some ''Paris'') (Some ''FR'') london_server")
  have "\<not> isl r"
    using fetch_fails_iff[of ?env "Some ''Paris''" "Some ''FR''" london_server] f
    by (simp add: k tm sh)
  then obtain snap where r: "r = Inr snap" by (cases r) auto
  with f have g: "fetch_all_data ?env (Some ''Paris'') (Some ''FR'') london_server
                        = (Inr snap, s')" by simp
  have snap: "snap = [(''weather'', data (weather_get_mock_data ?t ''Paris'' ''FR'')),
          (''traffic'', get_mock_traffic_data (\<lambda>i. (''low'', 5)) ''London'' ''GB''),
          (''temperature'', tmp),
          (''shop_offers'', frag),
          (''metadata'',
             [(''city'', PStr ''Paris''), (''country'', PStr ''FR''),
              (''fetched_at'', PStr (isoformat (store_now ?env)))])]"
    using fetch_ok_cache[OF g] by (simp add: k we tr tm sh format_response_def)
  have new: "data_cache s' = snap" "cache_timestamp s' = Some ?t"
    using fetch_all_data_ok[OF g] by (simp_all add: example_env_def)
  have w: "dict_get snap ''weather'' [] \<noteq> dict_get (data_cache london_server) ''weather'' []"
    by (simp add: snap old d dict_get_def weather_get_mock_data_def format_response_def)
  have rest: "dict_get (dict_get snap ''metadata'' []) ''city'' PNone = PStr ''Paris''"
    "dict_get snap ''traffic'' [] = dict_get (data_cache london_server) ''traffic'' []"
    "dict_get snap ''temperature'' [] = dict_get (data_cache london_server) ''temperature'' []"
    "dict_get snap ''shop_offers'' [] = dict_get (data_cache london_server) ''shop_offers'' []"
    by (simp_all add: snap old d dict_get_def)
  have tc: "dict_get (dict_get snap ''traffic'' []) ''city'' PNone = PStr ''London''"
    using traffic_fragment_city[of "\<lambda>i. (''low'', 5)" "''London''" "''GB''"]
    by (simp add: snap dict_get_def)
  from g new london_facts(1) rest w tc show ?thesis
    by (intro exI[of _ snap] exI[of _ s'] conjI)
qed

section \<open>Classifying and composing\<close>

lemma str_in_sublist: "str_in k s \<longleftrightarrow> sublist k s"
  by (induction s) (simp_all add: sublist_Cons_right)

lemma matches_keyword_hit: "matches q c = keyword_hit (spec_keywords c) (lower q)"
  by (simp add: matches_def keyword_hit_def str_in_sublist)

lemma keyword_hit_matches:
  "keyword_hit weather_keywords (lower q) = matches q Weather"
  "keyword_hit temp_keywords (lower q) = matches q Temperature"
  "keyword_hit traffic_keywords (lower q) = matches q Traffic"
  "keyword_hit shop_keywords (lower q) = matches q Shopping"
  by (simp_all add: matches_keyword_hit weather_keywords_def temp_keywords_def
        traffic_keywords_def shop_keywords_def)

lemma classify_cases:
  "classify q =
     (if \<not> matches q Weather \<and> \<not> matches q Temperature \<and> \<not> matches q Traffic
          \<and> \<not> matches q Shopping
      then [General]
      else (if matches q Weather then [Weather] else [])
           @ (if matches q Temperature then [Temperature] else [])
           @ (if matches q Traffic then [Traffic] else [])
           @ (if matches q Shopping then [Shopping] else []))"
  by (simp add: classify_def Let_def)

lemma classify_hits:
  "Weather \<in> set (classify q) \<longleftrightarrow> matches q Weather"
  "Temperature \<in> set (classify q) \<longleftrightarrow> matches q Temperature"
  "Traffic \<in> set (classify q) \<longleftrightarrow> matches q Traffic"
  "Shopping \<in> set (classify q) \<longleftrightarrow> matches q Shopping"
  by (auto simp: classify_cases split: if_splits)

lemma shop_part_shape:
  "shop_part R cd p = Inr p4 \<Longrightarrow>
     fst p4 = dict_set (fst p) ''shop_offers'' (dict_get cd ''shop_offers'' [])
     \<and> (\<exists>x. snd p4 = snd p @ [x])"
  by (auto simp: shop_part_def Let_def split: if_splits pyval.splits sum.splits)

lemma classify_hit_cases:
  "classify q =
     (if \<not> keyword_hit weather_keywords (lower q) \<and> \<not> keyword_hit temp_keywords (lower q)
          \<and> \<not> keyword_hit traffic_keywords (lower q) \<and> \<not> keyword_hit shop_keywords (lower q)
      then [General]
      else (if keyword_hit weather_keywords (lower q) then [Weather] else [])
           @ (if keyword_hit temp_keywords (lower q) then [Temperature] else [])
           @ (if keyword_hit traffic_keywords (lower q) then [Traffic] else [])
           @ (if keyword_hit shop_keywords (lower q) then [Shopping] else []))"
  unfolding keyword_hit_matches by (rule classify_cases)

lemma compose_answer_keys:
  assumes "compose_answer R cd q c = Inr (ans, rd)"
  shows "if classify q = [General] then rd = cd
         else map fst rd = map fragment_key (classify q)"
proof -
  define w where "w = keyword_hit weather_keywords (lower q)"
  define t where "t = keyword_hit temp_keywords (lower q)"
  define f where "f = keyword_hit traffic_keywords (lower q)"
  define h where "h = keyword_hit shop_keywords (lower q)"
  define p3 :: parts where
    "p3 = (if f
           then traffic_part R cd
                  (if t then temperature_part R cd (if w then weather_part R cd c ([], []) else ([], []))
                   else (if w then weather_part R cd c ([], []) else ([], [])))
           else (if t then temperature_part R cd (if w then weather_part R cd c ([], []) else ([], []))
                 else (if w then weather_part R cd c ([], []) else ([], []))))"
  have cl: "classify q =
     (if \<not> w \<and> \<not> t \<and> \<not> f \<and> \<not> h then [General]
      else (if w then [Weather] else []) @ (if t then [Temperature] else [])
           @ (if f then [Traffic] else []) @ (if h then [Shopping] else []))"
    unfolding w_def t_def f_def h_def by (rule classify_hit_cases)
  have co: "compose_answer R cd q c =
     (case (if h then shop_part R cd p3 else Inr p3) of
        Inl e \<Rightarrow> Inl e
      | Inr p4 \<Rightarrow>
          (let p5 = (if snd p4 = [] then general_part R cd c else p4)
           in Inr (if snd p5 \<noteq> [] then join '' '' (snd p5)
                   else ''I couldn't find specific information for your query.'',
                   fst p5)))"
    unfolding compose_answer_def Let_def w_def t_def f_def h_def p3_def by simp
  have k3: "map fst (fst p3) =
              (if w then [''weather''] else []) @ (if t then [''temperature''] else [])
              @ (if f then [''traffic''] else [])"
    by (simp add: p3_def weather_part_def temperature_part_def traffic_part_def Let_def)
  have e3: "snd p3 = [] \<longleftrightarrow> \<not> w \<and> \<not> t \<and> \<not> f"
    by (simp add: p3_def weather_part_def temperature_part_def traffic_part_def Let_def)
  show ?thesis
  proof (cases h)
    case False
    show ?thesis
    proof (cases "snd p3 = []")
      case True
      with False assms co have "rd = cd" by (simp add: Let_def general_part_def)
      with True False e3 cl show ?thesis by simp
    next
      case ne: False
      with False assms co have "rd = fst p3" by (simp add: Let_def)
      with ne False e3 cl k3 show ?thesis by auto
    qed
  next
    case True
    with assms co obtain p4 where s: "shop_part R cd p3 = Inr p4"
      by (auto split: sum.splits)
    note sh = shop_part_shape[OF s]
    from sh have ne: "snd p4 \<noteq> []" by auto
    with True s assms co have "rd = fst p4" by (simp add: Let_def)
    with sh have rd: "rd = dict_set (fst p3) ''shop_offers'' (dict_get cd ''shop_offers'' [])"
      by simp
    have "map fst rd =
              (if w then [''weather''] else []) @ (if t then [''temperature''] else [])
              @ (if f then [''traffic''] else []) @ [''shop_offers'']"
      unfolding rd
      by (simp add: p3_def weather_part_def temperature_part_def traffic_part_def Let_def)
    with True cl show ?thesis by simp
  qed
qed

lemma classify_examples:
  "classify ''How's the traffic today?'' = [Traffic]"
  "classify ''Is it hot and are there deals?'' = [Temperature, Shopping]"
  "classify ''Tell me about the city'' = [General]"
  by (simp_all add: classify_cases matches_keyword_hit keyword_hit_def lower_def lower_char_def)

lemma dict_get_present: "map_of d k \<noteq> None \<Longrightarrow> dict_get d k x = dict_get d k y"
  by (auto simp: dict_get_def)

lemma lower_examples:
  "lower ''Any deals?'' = ''any deals?''"
  "lower ''Which SHOP has a sale?'' = ''which shop has a sale?''"
  by code_simp+

lemma shop_queries:
  "classify ''Any deals?'' = [Shopping]" "classify ''Which SHOP has a sale?'' = [Shopping]"
  by (simp_all add: classify_cases matches_keyword_hit keyword_hit_def lower_examples)

lemma char_of_eq_small: "char_of (m :: nat) = b \<longleftrightarrow> m mod 256 = of_char b"
proof -
  have "char_of m = b \<longleftrightarrow> (of_char (char_of m) :: nat) = of_char b"
    by (simp only: of_char_eq_iff)
  then show ?thesis by simp
qed

lemma of_char_less: "(of_char a :: nat) < 256"
  by simp

lemma lower_char_small:
  assumes "97 \<le> (of_char b :: nat)" and "(of_char b :: nat) \<le> 122"
  shows "lower_char a = b \<longleftrightarrow> caseless_eq a b"
proof -
  have eq: "a = b \<longleftrightarrow> (of_char a :: nat) = of_char b" by simp
  have lt: "(of_char a :: nat) < 256" by simp
  show ?thesis
  proof (cases "65 \<le> (of_char a :: nat) \<and> (of_char a :: nat) \<le> 90")
    case True
    then have "lower_char a = char_of ((of_char a :: nat) + 32)"
      by (simp add: lower_char_def Let_def)
    moreover have "((of_char a :: nat) + 32) mod 256 = of_char a + 32" using True by simp
    ultimately have "lower_char a = b \<longleftrightarrow> (of_char a :: nat) + 32 = of_char b"
      by (simp only: char_of_eq_small)
    moreover have "a \<noteq> b" using True assms eq by auto
    ultimately show ?thesis using assms by (simp add: caseless_eq_def)
  next
    case False
    show ?thesis
    proof (cases "192 \<le> (of_char a :: nat) \<and> (of_char a :: nat) \<le> 222
                   \<and> (of_char a :: nat) \<noteq> 215")
      case True
      then have "lower_char a = char_of ((of_char a :: nat) + 32)"
        by (simp add: lower_char_def Let_def)
      moreover have "((of_char a :: nat) + 32) mod 256 = of_char a + 32" using True by simp
      ultimately have "lower_char a = b \<longleftrightarrow> (of_char a :: nat) + 32 = of_char b"
        by (simp only: char_of_eq_small)
      then show ?thesis using True assms eq by (auto simp: caseless_eq_def)
    next
      case F2: False
      with False have "lower_char a = a" by (auto simp: lower_char_def Let_def)
      then show ?thesis using False assms by (auto simp: caseless_eq_def)
    qed
  qed
qed

lemma lower_eq_caseless:
  "small_letters k \<Longrightarrow> lower p = k \<longleftrightarrow> list_all2 caseless_eq p k"
proof (induction p arbitrary: k)
  case Nil
  show ?case by (auto simp: lower_def)
next
  case (Cons a p)
  show ?case
  proof (cases k)
    case Nil
    then show ?thesis by (simp add: lower_def)
  next
    case (Cons b k')
    with Cons.prems have s: "97 \<le> (of_char b :: nat)" "(of_char b :: nat) \<le> 122"
      "small_letters k'"
      by (simp_all add: small_letters_def)
    from Cons.IH[OF s(3)] have "lower p = k' \<longleftrightarrow> list_all2 caseless_eq p k'" .
    with lower_char_small[OF s(1) s(2), of a] Cons show ?thesis
      by (simp add: lower_def)
  qed
qed

lemma sublist_map_iff: "sublist k (map f q) \<longleftrightarrow> (\<exists>p. sublist p q \<and> map f p = k)"
proof
  assume "sublist k (map f q)"
  then obtain ps ss where "map f q = ps @ k @ ss" by (auto simp: sublist_def)
  then have "\<exists>us vs. q = us @ vs \<and> ps = map f us \<and> k @ ss = map f vs"
    by (simp only: map_eq_append_conv)
  then obtain us vs where u: "q = us @ vs" "k @ ss = map f vs" by blast
  from u(2) have "\<exists>b c. vs = b @ c \<and> k = map f b \<and> ss = map f c"
    by (simp only: append_eq_map_conv)
  then obtain b c where "vs = b @ c" "k = map f b" by blast
  with u have "q = us @ b @ c" "map f b = k" by simp_all
  then show "\<exists>p. sublist p q \<and> map f p = k" by (auto simp: sublist_def)
next
  assume "\<exists>p. sublist p q \<and> map f p = k"
  then obtain p ps ss where "q = ps @ p @ ss" "map f p = k" by (auto simp: sublist_def)
  then have "map f q = map f ps @ k @ map f ss" by simp
  then show "sublist k (map f q)" unfolding sublist_def by blast
qed

lemma spec_keywords_small: "k \<in> set (spec_keywords c) \<Longrightarrow> small_letters k"
  by (cases c) (auto simp: small_letters_def)

lemma matches_caseless:
  "matches q c \<longleftrightarrow>
     (\<exists>k \<in> set (spec_keywords c). \<exists>p. sublist p q \<and> list_all2 caseless_eq p k)"
proof -
  have "matches q c \<longleftrightarrow> (\<exists>k \<in> set (spec_keywords c). \<exists>p. sublist p q \<and> lower p = k)"
    unfolding matches_def list_ex_iff lower_def sublist_map_iff ..
  also have "\<dots> \<longleftrightarrow>
     (\<exists>k \<in> set (spec_keywords c). \<exists>p. sublist p q \<and> list_all2 caseless_eq p k)"
    using lower_eq_caseless[OF spec_keywords_small] by blast
  finally show ?thesis .
qed

lemma lower_capitals:
  "lower ''Heavy TRAFFIC on the Road?'' = ''heavy traffic on the road?''"
  "lower ''Is it HOT and are there Deals?'' = ''is it hot and are there deals?''"
  by code_simp+

lemma capitals_classified:
  "classify ''Heavy TRAFFIC on the Road?'' = [Traffic]"
  "classify ''Is it HOT and are there Deals?'' = [Temperature, Shopping]"
  by (simp_all add: classify_cases matches_keyword_hit keyword_hit_def lower_capitals)

lemma traffic_capitals_hits:
  "\<not> keyword_hit weather_keywords (lower ''Heavy TRAFFIC on the Road?'')"
  "\<not> keyword_hit temp_keywords (lower ''Heavy TRAFFIC on the Road?'')"
  "keyword_hit traffic_keywords (lower ''Heavy TRAFFIC on the Road?'')"
  "\<not> keyword_hit shop_keywords (lower ''Heavy TRAFFIC on the Road?'')"
  by (simp_all add: keyword_hit_def weather_keywords_def temp_keywords_def
        traffic_keywords_def shop_keywords_def lower_capitals)

lemma traffic_capitals_answer:
  "compose_answer R cd ''Heavy TRAFFIC on the Road?'' c
     = Inr (''Traffic level: ''
              @ py_str R (dict_get (dict_get cd ''traffic'' []) ''overall_traffic_level''
                            (PStr ''N/A''))
              @ ''. ''
              @ py_str R (dict_get (dict_get cd ''traffic'' []) ''recommendation'' (PStr [])),
            [(''traffic'', dict_get cd ''traffic'' [])])"
  by (simp add: compose_answer_def Let_def traffic_capitals_hits traffic_part_def)

lemma hot_deals_hits:
  "\<not> keyword_hit weather_keywords (lower ''Is it HOT and are there Deals?'')"
  "keyword_hit temp_keywords (lower ''Is it HOT and are there Deals?'')"
  "\<not> keyword_hit traffic_keywords (lower ''Is it HOT and are there Deals?'')"
  "keyword_hit shop_keywords (lower ''Is it HOT and are there Deals?'')"
  by (simp_all add: keyword_hit_def weather_keywords_def temp_keywords_def
        traffic_keywords_def shop_keywords_def lower_capitals)

lemma str_int_zero: "str_int 0 = ''0''"
  by code_simp

lemma hot_deals_answer:
  "compose_answer example_render no_deals ''Is it HOT and are there Deals?'' PNone
     = Inr (''Current temperature: N/A'' @ degrees_c @ ''.  Found 0 offers available in the city.'',
            [(''temperature'', []),
             (''shop_offers'', [(''total_offers'', PInt 0), (''best_deals'', PList [])])])"
  by (simp add: compose_answer_def Let_def hot_deals_hits temperature_part_def shop_part_def
        no_deals_def dict_get_def str_int_zero)

text \<open>
  C7. The four keyword tests of \<open>answer_query\<close> are the matches of the specification's
  classifier, and a category matches exactly when the query has a piece that is one of
  its keywords up to the case of the letters. Whenever the answer is composed,
  \<open>relevant_data\<close> is the whole data if the query classifies as the single category
  general, which is the case exactly when no category matches, and otherwise holds the
  fragments of the matched categories in the order weather, temperature, traffic,
  shopping. "How's the traffic today?" classifies as traffic,
  "Is it hot and are there deals?" as temperature and shopping in that order,
  "Tell me about the city" as general, and "Heavy TRAFFIC on the Road?", with its
  capitals, as traffic: its answer is the traffic sentence with the traffic fragment.
\<close>

theorem classification_by_keywords:
  "(\<forall>q. keyword_hit weather_keywords (lower q) = matches q Weather
        \<and> keyword_hit temp_keywords (lower q) = matches q Temperature
        \<and> keyword_hit traffic_keywords (lower q) = matches q Traffic
        \<and> keyword_hit shop_keywords (lower q) = matches q Shopping)
   \<and> (\<forall>q c. matches q c \<longleftrightarrow>
         (\<exists>k \<in> set (spec_keywords c). \<exists>p. sublist p q \<and> list_all2 caseless_eq p k))
   \<and> (\<forall>R cd q c ans rd.
         compose_answer R cd q c = Inr (ans, rd) \<longrightarrow>
         (if classify q = [General] then rd = cd
          else map fst rd = map fragment_key (classify q)))
   \<and> classify ''How's the traffic today?'' = [Traffic]
   \<and> classify ''Is it hot and are there deals?'' = [Temperature, Shopping]
   \<and> classify ''Tell me about the city'' = [General]
   \<and> classify ''Heavy TRAFFIC on the Road?'' = [Traffic]
   \<and> (\<forall>R cd c.
         compose_answer R cd ''Heavy TRAFFIC on the Road?'' c
           = Inr (''Traffic level: ''
                    @ py_str R (dict_get (dict_get cd ''traffic'' []) ''overall_traffic_level''
                                  (PStr ''N/A''))
                    @ ''. ''
                    @ py_str R (dict_get (dict_get cd ''traffic'' []) ''recommendation''
                                  (PStr [])),
                  [(''traffic'', dict_get cd ''traffic'' [])]))"
proof (intro conjI allI impI)
  fix R cd q and c :: pyval and ans rd
  assume "compose_answer R cd q c = Inr (ans, rd)"
  then show "if classify q = [General] then rd = cd
          else map fst rd = map fragment_key (classify q)"
    by (rule compose_answer_keys)
qed (simp_all add: keyword_hit_matches matches_caseless classify_examples capitals_classified
       traffic_capitals_answer)

theorem classification_by_keywords_witness:
  "compose_answer example_render no_deals ''Is it HOT and are there Deals?'' PNone
     = Inr (''Current temperature: N/A'' @ degrees_c @ ''.  Found 0 offers available in the city.'',
            [(''temperature'', []),
             (''shop_offers'', [(''total_offers'', PInt 0), (''best_deals'', PList [])])])
   \<and> classify ''Is it HOT and are there Deals?'' = [Temperature, Shopping]
   \<and> map fst [(''temperature'', [] :: pydict),
               (''shop_offers'', [(''total_offers'', PInt 0), (''best_deals'', PList [])])]
       = map fragment_key (classify ''Is it HOT and are there Deals?'')"
proof -
  have "map fst [(''temperature'', [] :: pydict),
               (''shop_offers'', [(''total_offers'', PInt 0), (''best_deals'', PList [])])]
       = map fragment_key (classify ''Is it HOT and are there Deals?'')"
    using classification_by_keywords[THEN conjunct2, THEN conjunct2, THEN conjunct1,
        rule_format, OF hot_deals_answer] capitals_classified(2)
    by simp
  with hot_deals_answer capitals_classified(2) show ?thesis by (intro conjI)
qed

lemma compose_answer_same_intents:
  assumes "classify q1 = classify q2" and "names_city cd \<or> c1 = c2"
  shows "compose_answer R cd q1 c1 = compose_answer R cd q2 c2"
proof -
  have m: "matches q1 Weather = matches q2 Weather"
          "matches q1 Temperature = matches q2 Temperature"
          "matches q1 Traffic = matches q2 Traffic"
          "matches q1 Shopping = matches q2 Shopping"
    using assms(1) classify_hits[of q1] classify_hits[of q2] by simp_all
  have k: "keyword_hit weather_keywords (lower q1) = keyword_hit weather_keywords (lower q2)"
          "keyword_hit temp_keywords (lower q1) = keyword_hit temp_keywords (lower q2)"
          "keyword_hit traffic_keywords (lower q1) = keyword_hit traffic_keywords (lower q2)"
          "keyword_hit shop_keywords (lower q1) = keyword_hit shop_keywords (lower q2)"
    using m by (simp_all add: keyword_hit_matches)
  have w: "weather_part R cd c1 = weather_part R cd c2"
  proof (rule ext)
    fix p
    from assms(2) show "weather_part R cd c1 p = weather_part R cd c2 p"
    proof
      assume "names_city cd"
      then have "dict_get (dict_get cd ''weather'' []) ''city'' c1
                   = dict_get (dict_get cd ''weather'' []) ''city'' c2"
        by (simp add: names_city_def dict_get_present)
      then show ?thesis by (simp add: weather_part_def Let_def)
    next
      assume "c1 = c2"
      then show ?thesis by simp
    qed
  qed
  have g: "general_part R cd c1 = general_part R cd c2"
    using assms(2)
  proof
    assume "names_city cd"
    then have "dict_get (dict_get cd ''metadata'' []) ''city'' c1
                 = dict_get (dict_get cd ''metadata'' []) ''city'' c2"
      by (simp add: names_city_def dict_get_present)
    then show ?thesis by (simp add: general_part_def Let_def)
  next
    assume "c1 = c2"
    then show ?thesis by simp
  qed
  show ?thesis
    unfolding compose_answer_def Let_def k w g by (rule refl)
qed

lemma weather_format_city:
  "weather_format city country j = Some d \<Longrightarrow> map_of d ''city'' \<noteq> None"
  unfolding weather_format_def bind_eq_Some_conv by (elim exE conjE) auto

lemma cache_lookup_Some: "cache_lookup now p = Some d \<Longrightarrow> cached_data p = Some d"
  by (simp add: cache_lookup_def split: if_splits option.splits)

lemma weather_fetch_cases:
  "(\<exists>d. cached_data p = Some d
        \<and> weather_fetch_data now http city country p
            = (format_response ''WeatherProvider'' now d, p))
   \<or> weather_fetch_data now http city country p = (weather_get_mock_data now city country, p)
   \<or> (\<exists>j fd. weather_format city country j = Some fd
        \<and> weather_fetch_data now http city country p
            = (format_response ''WeatherProvider'' now fd,
               p\<lparr>cached_data := Some fd, last_fetch_time := Some now\<rparr>))"
proof (cases "cache_lookup now p")
  case (Some d)
  then show ?thesis
    using cache_lookup_Some[OF Some] by (simp add: weather_fetch_data_def)
next
  case None
  show ?thesis
  proof (cases http)
    case HttpFailed
    with None show ?thesis by (simp add: weather_fetch_data_def)
  next
    case (HttpJson j)
    show ?thesis
    proof (cases "weather_format city country j")
      case None
      with \<open>cache_lookup now p = None\<close> HttpJson show ?thesis
        by (simp add: weather_fetch_data_def)
    next
      case (Some fd)
      show ?thesis
      proof (cases "py_or (api_key p) [] = []")
        case True
        with \<open>cache_lookup now p = None\<close> show ?thesis by (simp add: weather_fetch_data_def)
      next
        case False
        with \<open>cache_lookup now p = None\<close> HttpJson Some
        have "weather_fetch_data now http city country p
            = (format_response ''WeatherProvider'' now fd,
               p\<lparr>cached_data := Some fd, last_fetch_time := Some now\<rparr>)"
          by (simp add: weather_fetch_data_def)
        with Some show ?thesis by blast
      qed
    qed
  qed
qed

lemma weather_fetch_city:
  assumes "weather_cache_inv p"
  shows "map_of (data (fst (weather_fetch_data now http city country p))) ''city'' \<noteq> None"
    and "weather_cache_inv (snd (weather_fetch_data now http city country p))"
proof -
  have "map_of (data (fst (weather_fetch_data now http city country p))) ''city'' \<noteq> None
        \<and> weather_cache_inv (snd (weather_fetch_data now http city country p))"
    using weather_fetch_cases[of p now http city country]
  proof (elim disjE exE conjE)
    fix d
    assume "cached_data p = Some d"
      and "weather_fetch_data now http city country p
             = (format_response ''WeatherProvider'' now d, p)"
    with assms show ?thesis by (simp add: weather_cache_inv_def format_response_def)
  next
    assume "weather_fetch_data now http city country p
              = (weather_get_mock_data now city country, p)"
    with assms show ?thesis by (simp add: weather_get_mock_data_def format_response_def)
  next
    fix j fd
    assume "weather_format city country j = Some fd"
      and "weather_fetch_data now http city country p
            = (format_response ''WeatherProvider'' now fd,
               p\<lparr>cached_data := Some fd, last_fetch_time := Some now\<rparr>)"
    with weather_format_city[of city country j fd] show ?thesis
      by (simp add: weather_cache_inv_def format_response_def)
  qed
  then show "map_of (data (fst (weather_fetch_data now http city country p))) ''city'' \<noteq> None"
    and "weather_cache_inv (snd (weather_fetch_data now http city country p))"
    by simp_all
qed

lemma naming_fetch: "naming_inv s \<Longrightarrow> naming_inv (snd (fetch_all_data env c k s))"
proof -
  assume a: "naming_inv s"
  then have w: "weather_cache_inv (weather_provider s)" by (simp add: naming_inv_def)
  obtain r s' where f: "fetch_all_data env c k s = (r, s')" by (cases "fetch_all_data env c k s")
  have p: "weather_cache_inv (weather_provider s')"
    using fetch_providers(1)[of env c k s] f weather_fetch_city(2)[OF w] by simp
  show ?thesis
  proof (cases r)
    case (Inl e)
    with f a p fetch_all_data_fail[of env c k s e s'] show ?thesis by (simp add: naming_inv_def)
  next
    case (Inr d)
    with f have g: "fetch_all_data env c k s = (Inr d, s')" by simp
    have "names_city d"
      using fetch_ok_cache[OF g] weather_fetch_city(1)[OF w]
      by (simp add: names_city_def dict_get_def)
    with g p fetch_all_data_ok[OF g] show ?thesis by (simp add: naming_inv_def)
  qed
qed

lemma naming_get: "naming_inv s \<Longrightarrow> naming_inv (snd (get_city_data env now c k f s))"
  by (cases "needs_fetch now (py_or c (current_city s)) f s")
     (simp_all add: get_city_data_fetch get_city_data_cached naming_fetch)

lemma reachable_naming: "reachable s \<Longrightarrow> naming_inv s"
proof (induction rule: reachable.induct)
  case (reach_new k)
  show ?case
    by (simp add: naming_inv_def weather_cache_inv_def new_server_def new_provider_def)
next
  case (reach_fetch s env city country)
  then show ?case by (simp add: naming_fetch)
next
  case (reach_get s env now city country force)
  then show ?case by (simp add: naming_get)
next
  case (reach_answer s env now stamp R query city country)
  then show ?case by (simp add: snd_answer_query naming_get)
qed

text \<open>
  C8. The answer and \<open>relevant_data\<close> that the body of \<open>answer_query\<close> composes depend
  on the query only through its classification, and on nothing else but the data: two
  queries with the same classification give the same result on the same data, whatever the
  \<open>city\<close> arguments, as long as the data names its city (or the arguments agree). Every
  snapshot cached in a reachable state names its city.
\<close>

theorem compose_depends_on_snapshot_and_intents:
  "(\<forall>s. reachable s \<and> data_cache s \<noteq> [] \<longrightarrow> names_city (data_cache s))
   \<and> (\<forall>R cd q1 q2 c1 c2.
         classify q1 = classify q2 \<and> (names_city cd \<or> c1 = c2) \<longrightarrow>
         compose_answer R cd q1 c1 = compose_answer R cd q2 c2)"
proof (intro conjI allI impI)
  fix s
  assume "reachable s \<and> data_cache s \<noteq> []"
  then show "names_city (data_cache s)"
    using reachable_naming[of s] by (simp add: naming_inv_def)
next
  fix R cd q1 q2 and c1 c2 :: pyval
  assume "classify q1 = classify q2 \<and> (names_city cd \<or> c1 = c2)"
  then show "compose_answer R cd q1 c1 = compose_answer R cd q2 c2"
    using compose_answer_same_intents[of q1 q2 cd c1 c2 R] by simp
qed

theorem compose_depends_on_snapshot_and_intents_witness:
  "reachable london_server
   \<and> data_cache london_server \<noteq> []
   \<and> names_city (data_cache london_server)
   \<and> classify ''Any deals?'' = classify ''Which SHOP has a sale?''
   \<and> compose_answer example_render (data_cache london_server) ''Any deals?'' PNone
       = compose_answer example_render (data_cache london_server) ''Which SHOP has a sale?''
           (PStr ''Paris'')"
proof -
  have n: "names_city (data_cache london_server)"
    using compose_depends_on_snapshot_and_intents[THEN conjunct1, rule_format,
        of london_server] london_reachable london_facts(3)
    by simp
  have a: "classify ''Any deals?'' = classify ''Which SHOP has a sale?''"
    by (simp add: shop_queries)
  have "compose_answer example_render (data_cache london_server) ''Any deals?'' PNone
       = compose_answer example_render (data_cache london_server) ''Which SHOP has a sale?''
           (PStr ''Paris'')"
    using compose_depends_on_snapshot_and_intents[THEN conjunct2, rule_format,
        of "''Any deals?''" "''Which SHOP has a sale?''" "data_cache london_server"
           PNone "PStr ''Paris''" example_render] a n
    by simp
  with n a london_reachable london_facts(3) show ?thesis by simp
qed

section \<open>The shopping sentence in the answer\<close>

lemma join_deals:
  "pairs \<noteq> [] \<Longrightarrow> length pairs \<le> 3 \<Longrightarrow>
     join '', '' (map (\<lambda>so. fst so @ '' - '' @ snd so) pairs) = three_deals_text pairs"
proof -
  assume a: "pairs \<noteq> []" "length pairs \<le> 3"
  then obtain x xs where p: "pairs = x # xs" by (cases pairs) auto
  show ?thesis
  proof (cases xs)
    case Nil
    with p show ?thesis by (simp add: three_deals_text_def deal_text_def)
  next
    case (Cons y ys)
    show ?thesis
    proof (cases ys)
      case Nil
      with p Cons show ?thesis by (simp add: three_deals_text_def deal_text_def)
    next
      case c3: (Cons z zs)
      with a p Cons have "zs = []" by simp
      with p Cons c3 show ?thesis by (simp add: three_deals_text_def deal_text_def)
    qed
  qed
qed

lemma only_shopping:
  "classify q = [Shopping] \<Longrightarrow>
     \<not> keyword_hit weather_keywords (lower q) \<and> \<not> keyword_hit temp_keywords (lower q)
     \<and> \<not> keyword_hit traffic_keywords (lower q) \<and> keyword_hit shop_keywords (lower q)"
  by (simp add: classify_hit_cases split: if_splits)

lemma shopping_hit: "Shopping \<in> set (classify q) \<Longrightarrow> keyword_hit shop_keywords (lower q)"
  by (simp add: classify_hits keyword_hit_matches)

lemma cited_deals:
  assumes "Shopping \<in> set (classify q)"
    and "map_of (dict_get cd ''shop_offers'' []) ''best_deals'' = Some (PList deals)"
    and "deals \<noteq> []" and "list_all2 deal_of (take 3 deals) pairs"
  shows "\<exists>pre rd.
           compose_answer R cd q c
             = Inr (pre @ ''Best deals available: '' @ three_deals_text pairs, rd)
         \<and> (classify q = [Shopping] \<longrightarrow>
               pre = [] \<and> rd = [(''shop_offers'', dict_get cd ''shop_offers'' [])])"
proof -
  have len: "length (take 3 deals) = length pairs"
    using assms(4) by (rule list_all2_lengthD)
  have ne: "pairs \<noteq> []"
    using len assms(3) by (cases deals) auto
  have le: "length pairs \<le> 3"
    using len by simp
  have s: "\<And>p. shop_part R cd p =
           Inr (dict_set (fst p) ''shop_offers'' (dict_get cd ''shop_offers'' []),
                snd p @ [''Best deals available: '' @ three_deals_text pairs])"
    using shop_part_deals[OF assms(2) assms(3) assms(4), of R] join_deals[OF ne le] by simp
  from compose_answer_shop[OF shopping_hit[OF assms(1)] s, of c] only_shopping[of q]
  show ?thesis by auto
qed

lemma counted_offers:
  assumes "Shopping \<in> set (classify q)"
    and "map_of (dict_get cd ''shop_offers'' []) ''best_deals'' = Some (PList [])
         \<or> map_of (dict_get cd ''shop_offers'' []) ''best_deals'' = None"
    and "map_of (dict_get cd ''shop_offers'' []) ''total_offers'' = Some (PInt n)"
  shows "\<exists>pre rd.
           compose_answer R cd q c
             = Inr (pre @ ''Found '' @ str_int n @ '' offers available in the city.'', rd)
         \<and> (classify q = [Shopping] \<longrightarrow>
               pre = [] \<and> rd = [(''shop_offers'', dict_get cd ''shop_offers'' [])])"
proof -
  have s: "\<And>p. shop_part R cd p =
           Inr (dict_set (fst p) ''shop_offers'' (dict_get cd ''shop_offers'' []),
                snd p @ [''Found '' @ str_int n @ '' offers available in the city.''])"
    by (rule shop_part_count[OF assms(2) assms(3)])
  from compose_answer_shop[OF shopping_hit[OF assms(1)] s, of c] only_shopping[of q]
  show ?thesis by auto
qed

text \<open>
  C9. Every fragment that \<open>_get_mock_shop_offers\<close> returns holds in \<open>best_deals\<close> three
  offers of \<open>all_offers\<close> such that the offers, the three first, are in descending order of
  their discount magnitude, where the seven offers are worth 50 (Buy 1 Get 1 Free), 20 and
  the five drawn discounts. When the query asks for shopping, the answer ends in
  "Best deals available: " and the first three best deals, each as "store - offer",
  separated by ", "; with no best deal it ends in "Found n offers available in the city."
  for the \<open>total_offers\<close> n. When the query asks for shopping only, that sentence is the
  whole answer.
\<close>

theorem best_deals_ranked_and_cited:
  "(\<forall>now rnd city country frag.
      get_mock_shop_offers now rnd city country = Inr frag \<longrightarrow>
      (\<exists>all best rest.
          map_of frag ''all_offers'' = Some (PList all)
        \<and> map_of frag ''best_deals'' = Some (PList best)
        \<and> map discount_magnitude all
            = 50 # 20 # map (\<lambda>c. of_int (discount (rnd c))) categories
        \<and> length best = 3
        \<and> mset (best @ rest) = mset all
        \<and> sorted_wrt (\<ge>) (map discount_magnitude (best @ rest))
        \<and> (\<forall>v \<in> set all. \<exists>so. deal_of v so)))
   \<and> (\<forall>R cd q c deals pairs.
        keyword_hit shop_keywords (lower q)
        \<and> map_of (dict_get cd ''shop_offers'' []) ''best_deals'' = Some (PList deals)
        \<and> deals \<noteq> [] \<and> list_all2 deal_of (take 3 deals) pairs \<longrightarrow>
        (\<exists>pre rd.
           compose_answer R cd q c
             = Inr (pre @ ''Best deals available: '' @ three_deals_text pairs, rd)
         \<and> (classify q = [Shopping] \<longrightarrow>
               pre = [] \<and> rd = [(''shop_offers'', dict_get cd ''shop_offers'' [])])))
   \<and> (\<forall>R cd q c n.
        keyword_hit shop_keywords (lower q)
        \<and> (map_of (dict_get cd ''shop_offers'' []) ''best_deals'' = Some (PList [])
            \<or> map_of (dict_get cd ''shop_offers'' []) ''best_deals'' = None)
        \<and> map_of (dict_get cd ''shop_offers'' []) ''total_offers'' = Some (PInt n) \<longrightarrow>
        (\<exists>pre rd.
           compose_answer R cd q c
             = Inr (pre @ ''Found '' @ str_int n @ '' offers available in the city.'', rd)
         \<and> (classify q = [Shopping] \<longrightarrow>
               pre = [] \<and> rd = [(''shop_offers'', dict_get cd ''shop_offers'' [])])))"
proof (intro conjI allI impI)
  fix now rnd city country frag
  assume a: "get_mock_shop_offers now rnd city country = Inr frag"
  from shop_offers_ranked[OF a] obtain all best rest where
    r: "map_of frag ''all_offers'' = Some (PList all)"
       "map_of frag ''best_deals'' = Some (PList best)"
       "map_of frag ''total_offers'' = Some (PInt (int (length all)))"
       "map discount_magnitude all = 50 # 20 # map (\<lambda>c. of_int (discount (rnd c))) categories"
       "length best = 3" "mset (best @ rest) = mset all"
       "sorted_wrt (\<ge>) (map discount_magnitude (best @ rest))"
    by auto
  from shop_offers_deals[OF a r(1)] r
  show "\<exists>all best rest.
          map_of frag ''all_offers'' = Some (PList all)
        \<and> map_of frag ''best_deals'' = Some (PList best)
        \<and> map discount_magnitude all
            = 50 # 20 # map (\<lambda>c. of_int (discount (rnd c))) categories
        \<and> length best = 3
        \<and> mset (best @ rest) = mset all
        \<and> sorted_wrt (\<ge>) (map discount_magnitude (best @ rest))
        \<and> (\<forall>v \<in> set all. \<exists>so. deal_of v so)"
    by (intro exI[of _ all] exI[of _ best] exI[of _ rest]) simp
next
  fix R cd q c deals pairs
  assume a: "keyword_hit shop_keywords (lower q)
        \<and> map_of (dict_get cd ''shop_offers'' []) ''best_deals'' = Some (PList deals)
        \<and> deals \<noteq> [] \<and> list_all2 deal_of (take 3 deals) pairs"
  then have h: "Shopping \<in> set (classify q)"
    and b: "map_of (dict_get cd ''shop_offers'' []) ''best_deals'' = Some (PList deals)"
    and d: "deals \<noteq> []" and l: "list_all2 deal_of (take 3 deals) pairs"
    by (simp_all add: classify_hits keyword_hit_matches)
  show "\<exists>pre rd.
           compose_answer R cd q c
             = Inr (pre @ ''Best deals available: '' @ three_deals_text pairs, rd)
         \<and> (classify q = [Shopping] \<longrightarrow>
               pre = [] \<and> rd = [(''shop_offers'', dict_get cd ''shop_offers'' [])])"
    by (rule cited_deals[OF h b d l])
next
  fix R cd q c n
  assume a: "keyword_hit shop_keywords (lower q)
        \<and> (map_of (dict_get cd ''shop_offers'' []) ''best_deals'' = Some (PList [])
            \<or> map_of (dict_get cd ''shop_offers'' []) ''best_deals'' = None)
        \<and> map_of (dict_get cd ''shop_offers'' []) ''total_offers'' = Some (PInt n)"
  then have h: "Shopping \<in> set (classify q)"
    and b: "map_of (dict_get cd ''shop_offers'' []) ''best_deals'' = Some (PList [])
            \<or> map_of (dict_get cd ''shop_offers'' []) ''best_deals'' = None"
    and t: "map_of (dict_get cd ''shop_offers'' []) ''total_offers'' = Some (PInt n)"
    by (simp_all add: classify_hits keyword_hit_matches)
  show "\<exists>pre rd.
           compose_answer R cd q c
             = Inr (pre @ ''Found '' @ str_int n @ '' offers available in the city.'', rd)
         \<and> (classify q = [Shopping] \<longrightarrow>
               pre = [] \<and> rd = [(''shop_offers'', dict_get cd ''shop_offers'' [])])"
    by (rule counted_offers[OF h b t])
qed

theorem best_deals_ranked_and_cited_witness:
  "(\<exists>frag.
       get_mock_shop_offers (at_time 10 12 0 0) example_draw ''London'' ''GB'' = Inr frag
     \<and> (\<exists>all best rest.
          map_of frag ''all_offers'' = Some (PList all)
        \<and> map_of frag ''best_deals'' = Some (PList best)
        \<and> map discount_magnitude all
            = 50 # 20 # map (\<lambda>c. of_int (discount (example_draw c))) categories
        \<and> length best = 3
        \<and> mset (best @ rest) = mset all
        \<and> sorted_wrt (\<ge>) (map discount_magnitude (best @ rest))
        \<and> (\<forall>v \<in> set all. \<exists>so. deal_of v so)))
   \<and> compose_answer example_render four_deals ''Any deals?'' PNone
       = Inr (''Best deals available: City Bistro - Buy 1 Get 1 Free, Fashion Store 1 - 45% OFF, SuperMart - 20% OFF'',
              four_deals)
   \<and> compose_answer example_render no_deals ''Any deals?'' PNone
       = Inr (''Found 0 offers available in the city.'', no_deals)"
proof -
  obtain frag where
    f: "get_mock_shop_offers (at_time 10 12 0 0) example_draw ''London'' ''GB'' = Inr frag"
    using example_shop_fragment by blast
  have a: "\<exists>frag.
       get_mock_shop_offers (at_time 10 12 0 0) example_draw ''London'' ''GB'' = Inr frag
     \<and> (\<exists>all best rest.
          map_of frag ''all_offers'' = Some (PList all)
        \<and> map_of frag ''best_deals'' = Some (PList best)
        \<and> map discount_magnitude all
            = 50 # 20 # map (\<lambda>c. of_int (discount (example_draw c))) categories
        \<and> length best = 3
        \<and> mset (best @ rest) = mset all
        \<and> sorted_wrt (\<ge>) (map discount_magnitude (best @ rest))
        \<and> (\<forall>v \<in> set all. \<exists>so. deal_of v so))"
    using f best_deals_ranked_and_cited[THEN conjunct1, rule_format, OF f]
    by (intro exI[of _ frag] conjI)
  have d: "map_of (dict_get four_deals ''shop_offers'' []) ''best_deals''
             = Some (PList [example_deal ''City Bistro'' ''Buy 1 Get 1 Free'',
                   example_deal ''Fashion Store 1'' ''45% OFF'',
                   example_deal ''SuperMart'' ''20% OFF'',
                   example_deal ''Groceries Store 3'' ''10% OFF''])"
    by (simp add: four_deals_def dict_get_def)
  have l: "list_all2 deal_of
             (take 3 [example_deal ''City Bistro'' ''Buy 1 Get 1 Free'',
                   example_deal ''Fashion Store 1'' ''45% OFF'',
                   example_deal ''SuperMart'' ''20% OFF'',
                   example_deal ''Groceries Store 3'' ''10% OFF''])
             [(''City Bistro'', ''Buy 1 Get 1 Free''), (''Fashion Store 1'', ''45% OFF''),
              (''SuperMart'', ''20% OFF'')]"
    by (simp add: deal_of_def example_deal_def)
  have t: "three_deals_text
             [(''City Bistro'', ''Buy 1 Get 1 Free''), (''Fashion Store 1'', ''45% OFF''),
              (''SuperMart'', ''20% OFF'')]
           = ''City Bistro - Buy 1 Get 1 Free, Fashion Store 1 - 45% OFF, SuperMart - 20% OFF''"
    by (simp add: three_deals_text_def deal_text_def)
  have r4: "[(''shop_offers'', dict_get four_deals ''shop_offers'' [])] = four_deals"
    by (simp add: four_deals_def dict_get_def)
  have b: "compose_answer example_render four_deals ''Any deals?'' PNone
       = Inr (''Best deals available: City Bistro - Buy 1 Get 1 Free, Fashion Store 1 - 45% OFF, SuperMart - 20% OFF'',
              four_deals)"
    using best_deals_ranked_and_cited[THEN conjunct2, THEN conjunct1, rule_format,
        where q = "''Any deals?''" and cd = four_deals and R = example_render and c = PNone
          and deals = "[example_deal ''City Bistro'' ''Buy 1 Get 1 Free'',
                   example_deal ''Fashion Store 1'' ''45% OFF'',
                   example_deal ''SuperMart'' ''20% OFF'',
                   example_deal ''Groceries Store 3'' ''10% OFF'']"
          and pairs = "[(''City Bistro'', ''Buy 1 Get 1 Free''), (''Fashion Store 1'', ''45% OFF''),
              (''SuperMart'', ''20% OFF'')]"] any_deals_hit d l shop_queries(1)
    unfolding t r4 by auto
  have n: "map_of (dict_get no_deals ''shop_offers'' []) ''best_deals'' = Some (PList [])"
          "map_of (dict_get no_deals ''shop_offers'' []) ''total_offers'' = Some (PInt 0)"
    by (simp_all add: no_deals_def dict_get_def)
  have z: "str_int 0 = ''0''" by code_simp
  have r0: "[(''shop_offers'', dict_get no_deals ''shop_offers'' [])] = no_deals"
    by (simp add: no_deals_def dict_get_def)
  have c: "compose_answer example_render no_deals ''Any deals?'' PNone
       = Inr (''Found 0 offers available in the city.'', no_deals)"
    using best_deals_ranked_and_cited[THEN conjunct2, THEN conjunct2, rule_format,
        where q = "''Any deals?''" and cd = no_deals and n = 0 and R = example_render
          and c = PNone] any_deals_hit n shop_queries(1)
    unfolding z r0 by auto
  from a b c show ?thesis by (intro conjI)
qed

end
